theory Spec2Isabelle
  imports Complex_Main
begin

section \<open>Python strings\<close>

text \<open>
  A Python \<open>str\<close> is a sequence of code points.  A \<^typ>\<open>string\<close> stands for a
  \<open>str\<close> whose code points are all below 256, one \<^typ>\<open>char\<close> per code point; on
  that range \<open>str.isspace\<close> and \<open>str.lower\<close> are the two functions below
  (\<open>\t \n \v \f \r\<close>, the separators 0x1C..0x1F, the space, NEL and the no-break
  space; the letters A..Z and the Latin-1 capitals 0xC0..0xDE without the
  multiplication sign).
\<close>

definition is_space :: "char \<Rightarrow> bool" where
  "is_space c =
     (let n = (of_char c :: int)
      in (9 \<le> n \<and> n \<le> 13) \<or> (28 \<le> n \<and> n \<le> 32) \<or> n = 133 \<or> n = 160)"

definition lower_char :: "char \<Rightarrow> char" where
  "lower_char c =
     (let n = (of_char c :: int)
      in if (65 \<le> n \<and> n \<le> 90) \<or> (192 \<le> n \<and> n \<le> 222 \<and> n \<noteq> 215)
         then char_of (n + 32) else c)"

text \<open>\<open>s.lower()\<close>\<close>

definition lower :: "string \<Rightarrow> string" where
  "lower s = map lower_char s"

text \<open>\<open>s.strip()\<close>\<close>

definition strip :: "string \<Rightarrow> string" where
  "strip s = rev (dropWhile is_space (rev (dropWhile is_space s)))"

text \<open>\<open>s.startswith(p)\<close> and \<open>s.endswith(p)\<close>\<close>

definition startswith :: "string \<Rightarrow> string \<Rightarrow> bool" where
  "startswith s p = (take (length p) s = p)"

definition endswith :: "string \<Rightarrow> string \<Rightarrow> bool" where
  "endswith s p = (length p \<le> length s \<and> drop (length s - length p) s = p)"

text \<open>\<open>sub in s\<close> for two strings: \<open>sub\<close> occurs in \<open>s\<close> as a contiguous run.\<close>

fun contains :: "string \<Rightarrow> string \<Rightarrow> bool" where
  "contains sub [] = (sub = [])"
| "contains sub (c # cs) = (startswith (c # cs) sub \<or> contains sub cs)"

text \<open>
  \<open>s.split()\<close>: the maximal runs of non-whitespace characters, in order.  The first
  argument is the run being read.
\<close>

fun split_from :: "string \<Rightarrow> string \<Rightarrow> string list" where
  "split_from cur [] = (if cur = [] then [] else [cur])"
| "split_from cur (c # cs) =
     (if is_space c then (if cur = [] then split_from [] cs else cur # split_from [] cs)
      else split_from (cur @ [c]) cs)"

definition py_split :: "string \<Rightarrow> string list" where
  "py_split s = split_from [] s"

text \<open>
  A slice \<open>xs[:n]\<close> with a Python integer \<open>n\<close>: a negative \<open>n\<close> counts from the
  end.
\<close>

definition slice_to :: "int \<Rightarrow> 'a list \<Rightarrow> 'a list" where
  "slice_to n xs = (if 0 \<le> n then take (nat n) xs else take (length xs - nat (- n)) xs)"

section \<open>Decoded JSON values and Python exceptions\<close>

text \<open>
  What \<open>json.loads\<close> returns: \<open>None\<close>, a bool, an int, a float, a str, a list or a
  dict with string keys.  A dict is an association list: a lookup takes the first
  binding of a key and the keys are the distinct first components.  Of a float the
  code only ever observes whether it is zero.
\<close>

datatype json =
    JNull
  | JBool bool
  | JInt int
  | JFloat real
  | JStr string
  | JList "json list"
  | JDict "(string \<times> json) list"

datatype exn = AttributeError | TypeError | KeyError | IndexError | ValueError | ProviderError

text \<open>\<open>bool(v)\<close>, the truth value that \<open>not v\<close> negates.\<close>

definition truthy :: "json \<Rightarrow> bool" where
  "truthy v =
     (case v of
        JNull \<Rightarrow> False
      | JBool b \<Rightarrow> b
      | JInt i \<Rightarrow> i \<noteq> 0
      | JFloat r \<Rightarrow> r \<noteq> 0
      | JStr s \<Rightarrow> s \<noteq> []
      | JList l \<Rightarrow> l \<noteq> []
      | JDict d \<Rightarrow> d \<noteq> [])"

definition dict_keys :: "(string \<times> json) list \<Rightarrow> string list" where
  "dict_keys d = remdups (map fst d)"

text \<open>\<open>len(v)\<close>: a \<open>TypeError\<close> for a value that has no length.\<close>

definition py_len :: "json \<Rightarrow> exn + nat" where
  "py_len v =
     (case v of
        JStr s \<Rightarrow> Inr (length s)
      | JList l \<Rightarrow> Inr (length l)
      | JDict d \<Rightarrow> Inr (length (dict_keys d))
      | _ \<Rightarrow> Inl TypeError)"

text \<open>
  \<open>for x in v\<close>: the characters of a str (each a one-character str), the elements
  of a list, the keys of a dict.
\<close>

definition py_iter :: "json \<Rightarrow> exn + json list" where
  "py_iter v =
     (case v of
        JStr s \<Rightarrow> Inr (map (\<lambda>c. JStr [c]) s)
      | JList l \<Rightarrow> Inr l
      | JDict d \<Rightarrow> Inr (map JStr (dict_keys d))
      | _ \<Rightarrow> Inl TypeError)"

text \<open>
  \<open>x in v\<close> for a str \<open>x\<close>: a substring test on a str, an element test on a list
  (a str equals no value of another type), a key test on a dict.
\<close>

definition py_in :: "string \<Rightarrow> json \<Rightarrow> exn + bool" where
  "py_in x v =
     (case v of
        JStr s \<Rightarrow> Inr (contains x s)
      | JList l \<Rightarrow> Inr (JStr x \<in> set l)
      | JDict d \<Rightarrow> Inr (x \<in> set (dict_keys d))
      | _ \<Rightarrow> Inl TypeError)"

text \<open>
  \<open>v[0]\<close>: the first character, the first element, and on a dict a \<open>KeyError\<close>
  (the keys of a decoded dict are strings, never the integer 0).
\<close>

definition py_first :: "json \<Rightarrow> exn + json" where
  "py_first v =
     (case v of
        JStr s \<Rightarrow> (case s of [] \<Rightarrow> Inl IndexError | c # _ \<Rightarrow> Inr (JStr [c]))
      | JList l \<Rightarrow> (case l of [] \<Rightarrow> Inl IndexError | x # _ \<Rightarrow> Inr x)
      | JDict d \<Rightarrow> Inl KeyError
      | _ \<Rightarrow> Inl TypeError)"

text \<open>
  \<open>str(v)\<close>: a str is itself.  For every other value the rendering is Python's
  own (digits of a number, \<open>None\<close>, \<open>True\<close>, the repr of a list or dict); it is the
  parameter \<open>render\<close>, so that every result holds whatever the rendering is.
\<close>

definition py_str :: "(json \<Rightarrow> string) \<Rightarrow> json \<Rightarrow> string" where
  "py_str render v = (case v of JStr s \<Rightarrow> s | _ \<Rightarrow> render v)"

text \<open>\<open>d.get(key, default).strip()\<close>: an \<open>AttributeError\<close> unless the value is a str.\<close>

definition get_stripped :: "(string \<times> json) list \<Rightarrow> string \<Rightarrow> string \<Rightarrow> exn + string" where
  "get_stripped d key dflt =
     (case map_of d key of
        None \<Rightarrow> Inr (strip dflt)
      | Some (JStr s) \<Rightarrow> Inr (strip s)
      | Some _ \<Rightarrow> Inl AttributeError)"

section \<open>The MCQ validator\<close>

text \<open>
  The dict that the validator returns, with its four keys \<open>question\<close>, \<open>answer\<close>,
  \<open>options\<close> and \<open>difficulty\<close> as fields.
\<close>

record mcq =
  mcq_question :: string
  mcq_answer :: string
  mcq_options :: "string list"
  mcq_difficulty :: string

definition vague_terms :: "string list" where
  "vague_terms =
     [''wrong'', ''incorrect'', ''not correct'', ''false'', ''invalid'',
      ''different concept'', ''alternative perspective'', ''common misconception'',
      ''broader interpretation'', ''related but different'', ''someone else'',
      ''not this'', ''other answer'', ''another option'']"

text \<open>\<open>any(term in opt_lower for term in vague_terms)\<close>\<close>

definition too_vague :: "string \<Rightarrow> bool" where
  "too_vague opt_lower = list_ex (\<lambda>term. contains term opt_lower) vague_terms"

definition people :: "string list" where
  "people = [''Alan Turing'', ''Isaac Newton'', ''Marie Curie'', ''Charles Darwin'']"

definition capitals :: "string list" where
  "capitals = [''London'', ''Berlin'', ''Tokyo'', ''Beijing'']"

definition years :: "string list" where
  "years = [''1945'', ''1969'', ''1776'', ''2001'']"

definition generic :: "string list" where
  "generic =
     [''A related concept from the same field'',
      ''An important but different aspect'',
      ''A frequently confused alternative'',
      ''A similar but distinct element'']"

definition generate_meaningful_filler :: "string \<Rightarrow> string \<Rightarrow> nat \<Rightarrow> string" where
  "generate_meaningful_filler question answer index =
     (let question_lower = lower question
      in if startswith question_lower ''who'' then people ! (index mod length people)
         else if contains ''capital'' question_lower then capitals ! (index mod length capitals)
         else if list_ex (\<lambda>term. contains term question_lower) [''year'', ''when'', ''date'']
         then years ! (index mod length years)
         else generic ! (index mod length generic))"

text \<open>
  The loop \<open>for opt in options: if opt.lower() == answer_lower: answer = opt; break\<close>
  with its \<open>else\<close> branch left to the caller: \<open>Inr None\<close> when the loop ran to its
  end.  An element that is not a str has no \<open>lower\<close>.
\<close>

fun find_same_case :: "string \<Rightarrow> json list \<Rightarrow> exn + string option" where
  "find_same_case answer_lower [] = Inr None"
| "find_same_case answer_lower (opt # rest) =
     (case opt of
        JStr s \<Rightarrow> if lower s = answer_lower then Inr (Some s)
                  else find_same_case answer_lower rest
      | _ \<Rightarrow> Inl AttributeError)"

text \<open>
  Lines 318 to 327, "ensure answer is in options".  The \<open>else\<close> branch of the loop
  takes \<open>options[0]\<close>; it is reached only after every element answered \<open>lower\<close>,
  so on a list that element is a str, and the branch for another value is never
  taken (lemma \<open>resolve_answer_no_type_error\<close>).
\<close>

definition resolve_answer :: "string \<Rightarrow> json \<Rightarrow> exn + string" where
  "resolve_answer answer opts =
     (case py_in answer opts of
        Inl e \<Rightarrow> Inl e
      | Inr True \<Rightarrow> Inr answer
      | Inr False \<Rightarrow>
          (case py_iter opts of
             Inl e \<Rightarrow> Inl e
           | Inr elems \<Rightarrow>
               (case find_same_case (lower answer) elems of
                  Inl e \<Rightarrow> Inl e
                | Inr (Some opt) \<Rightarrow> Inr opt
                | Inr None \<Rightarrow>
                    (case py_first opts of
                       Inl e \<Rightarrow> Inl e
                     | Inr (JStr s) \<Rightarrow> Inr s
                     | Inr _ \<Rightarrow> Inl TypeError))))"

text \<open>
  Lines 340 to 356: the cleaning loop over the raw options, with the list
  \<open>cleaned_options\<close> and the set \<open>seen\<close> as its state.
\<close>

fun clean_options ::
  "(json \<Rightarrow> string) \<Rightarrow> json list \<Rightarrow> string list \<Rightarrow> string set \<Rightarrow> string list \<times> string set"
where
  "clean_options render [] cleaned seen = (cleaned, seen)"
| "clean_options render (opt # rest) cleaned seen =
     (let opt_str = strip (py_str render opt)
      in if opt_str = [] then clean_options render rest cleaned seen
         else let opt_lower = lower opt_str
              in if too_vague opt_lower then clean_options render rest cleaned seen
                 else if opt_lower \<in> seen then clean_options render rest cleaned seen
                 else clean_options render rest (cleaned @ [opt_str]) (insert opt_lower seen))"

text \<open>
  Lines 359 to 364: \<open>while len(cleaned_options) < 4\<close>.  Nothing bounds the number
  of rounds, so the loop is a partial function: \<open>None\<close> when it never ends.
\<close>

partial_function (option) fill_loop ::
  "string \<Rightarrow> string \<Rightarrow> string list \<Rightarrow> string set \<Rightarrow> (string list \<times> string set) option"
where
  "fill_loop question answer cleaned seen =
     (if length cleaned < 4
      then (let filler = generate_meaningful_filler question answer (length cleaned);
                filler_lower = lower filler
            in if filler_lower \<notin> seen
               then fill_loop question answer (cleaned @ [filler]) (insert filler_lower seen)
               else fill_loop question answer cleaned seen)
      else Some (cleaned, seen))"

declare fill_loop.simps [code]

text \<open>Lines 371 to 378: a difficulty outside the three labels is derived from the word count.\<close>

definition derive_difficulty :: "string \<Rightarrow> string \<Rightarrow> string \<Rightarrow> string" where
  "derive_difficulty difficulty question answer =
     (if difficulty \<notin> set [''easy'', ''medium'', ''hard'']
      then (let total_words = length (py_split question) + length (py_split answer)
            in if total_words < 20 then ''easy''
               else if total_words < 40 then ''medium''
               else ''hard'')
      else difficulty)"

text \<open>
  Lines 366 to 385: the answer is looked up in the cleaned options once more, the
  difficulty is settled and the dict is built with the first four options.
  \<open>cleaned_options[0]\<close> is an \<open>IndexError\<close> on an empty list.
\<close>

definition finish_mcq :: "string \<Rightarrow> string \<Rightarrow> string \<Rightarrow> string list \<Rightarrow> exn + mcq option" where
  "finish_mcq question answer difficulty cleaned_options =
     (case cleaned_options of
        [] \<Rightarrow> Inl IndexError
      | first # _ \<Rightarrow>
          (let answer' = (if answer \<notin> set cleaned_options then first else answer)
           in Inr (Some \<lparr>mcq_question = question, mcq_answer = answer',
                     mcq_options = take 4 cleaned_options,
                     mcq_difficulty = derive_difficulty difficulty question answer'\<rparr>)))"

text \<open>
  Lines 313 to 364, for a question and an answer that are not empty and options
  that are truthy: the hard minimum of four raw options, the answer resolved
  against them, the cleaning loop and the filler loop.
\<close>

definition validate_options ::
  "(json \<Rightarrow> string) \<Rightarrow> string \<Rightarrow> string \<Rightarrow> string \<Rightarrow> json \<Rightarrow> (exn + mcq option) option"
where
  "validate_options render question answer difficulty opts =
     (case py_len opts of
        Inl e \<Rightarrow> Some (Inl e)
      | Inr n \<Rightarrow>
          if n < 4 then Some (Inr None)
          else
            (case resolve_answer answer opts of
               Inl e \<Rightarrow> Some (Inl e)
             | Inr answer' \<Rightarrow>
                 (case py_iter opts of
                    Inl e \<Rightarrow> Some (Inl e)
                  | Inr elems \<Rightarrow>
                      (case clean_options render elems [] {} of
                         (cleaned, seen) \<Rightarrow>
                           (case fill_loop question answer' cleaned seen of
                              None \<Rightarrow> None
                            | Some (cleaned_options, seen') \<Rightarrow>
                                Some (finish_mcq question answer' difficulty cleaned_options))))))"

text \<open>
  \<open>validate_mcq\<close>.  The result is \<open>None\<close> when the call never returns,
  \<open>Some (Inl e)\<close> when it raises \<open>e\<close>, \<open>Some (Inr None)\<close> when it returns \<open>None\<close>
  (the element is rejected) and \<open>Some (Inr (Some m))\<close> when it returns the dict
  \<open>m\<close>.  The four fields are read in the order of the source, the difficulty
  before the first check.
\<close>

definition validate_mcq :: "(json \<Rightarrow> string) \<Rightarrow> json \<Rightarrow> (exn + mcq option) option" where
  "validate_mcq render raw =
     (case raw of
        JDict d \<Rightarrow>
          if d = [] then Some (Inr None)
          else
            (case get_stripped d ''question'' [] of
               Inl e \<Rightarrow> Some (Inl e)
             | Inr question \<Rightarrow>
                 (case get_stripped d ''answer'' [] of
                    Inl e \<Rightarrow> Some (Inl e)
                  | Inr answer \<Rightarrow>
                      (case get_stripped d ''difficulty'' ''medium'' of
                         Inl e \<Rightarrow> Some (Inl e)
                       | Inr dstr \<Rightarrow>
                           (let opts = (case map_of d ''options'' of None \<Rightarrow> JList [] | Some v \<Rightarrow> v)
                            in if question = [] \<or> answer = [] \<or> \<not> truthy opts
                               then Some (Inr None)
                               else validate_options render question answer (lower dstr) opts))))
      | _ \<Rightarrow> Some (Inr None))"

text \<open>
  A dict with the four keys of an MCQ, all of them strings, and the dict of a
  validated record.
\<close>

definition raw_mcq :: "string \<Rightarrow> string \<Rightarrow> string list \<Rightarrow> string \<Rightarrow> json" where
  "raw_mcq q a os d =
     JDict [(''question'', JStr q), (''answer'', JStr a),
            (''options'', JList (map JStr os)), (''difficulty'', JStr d)]"

definition mcq_json :: "mcq \<Rightarrow> json" where
  "mcq_json m = raw_mcq (mcq_question m) (mcq_answer m) (mcq_options m) (mcq_difficulty m)"

text \<open>
  The state of the cleaning and filler loops is sound when \<open>seen\<close> holds the lower
  forms of the cleaned options, no two of which agree, and every cleaned option is
  non-empty and free of the vague terms.
\<close>

definition good_option :: "string \<Rightarrow> bool" where
  "good_option opt = (opt \<noteq> [] \<and> \<not> too_vague (lower opt))"

definition sound_state :: "string list \<Rightarrow> string set \<Rightarrow> bool" where
  "sound_state cleaned seen =
     (seen = set (map lower cleaned) \<and> distinct (map lower cleaned) \<and> list_all good_option cleaned)"

text \<open>
  The invariants of the data model as the idempotence property lists them: question
  and answer trimmed and non-empty, exactly four options with distinct lower forms
  and no vague term, the answer equal to one option, the difficulty one of the
  three labels.
\<close>

definition data_model_valid :: "mcq \<Rightarrow> bool" where
  "data_model_valid m =
     (strip (mcq_question m) = mcq_question m \<and> mcq_question m \<noteq> []
      \<and> strip (mcq_answer m) = mcq_answer m \<and> mcq_answer m \<noteq> []
      \<and> length (mcq_options m) = 4
      \<and> distinct (map lower (mcq_options m))
      \<and> list_all (\<lambda>opt. \<not> too_vague (lower opt)) (mcq_options m)
      \<and> mcq_answer m \<in> set (mcq_options m)
      \<and> mcq_difficulty m \<in> set [''easy'', ''medium'', ''hard''])"

text \<open>Every option is trimmed and non-empty.\<close>

definition options_trimmed :: "mcq \<Rightarrow> bool" where
  "options_trimmed m = list_all (\<lambda>opt. strip opt = opt \<and> opt \<noteq> []) (mcq_options m)"

section \<open>The fallback generator\<close>

text \<open>
  \<open>re.split(r'[.!?]', text)\<close>: the pieces between the separators, empty ones
  included.  The second argument is the piece being read.
\<close>

fun split_on :: "(char \<Rightarrow> bool) \<Rightarrow> string \<Rightarrow> string \<Rightarrow> string list" where
  "split_on sep cur [] = [cur]"
| "split_on sep cur (c # cs) =
     (if sep c then cur # split_on sep [] cs else split_on sep (cur @ [c]) cs)"

definition split_sentences :: "string \<Rightarrow> string list" where
  "split_sentences text = split_on (\<lambda>c. c \<in> set ''.!?'') [] text"

text \<open>\<open>[s.strip() for s in re.split(r'[.!?]', text) if len(s.strip()) > 20]\<close>\<close>

definition sentences_of :: "string \<Rightarrow> string list" where
  "sentences_of text = map strip (filter (\<lambda>s. 20 < length (strip s)) (split_sentences text))"

definition fallback_distractors :: "string list" where
  "fallback_distractors =
     [''A different concept from the text'', ''An alternative interpretation'',
      ''Related information'']"

text \<open>The dict built for \<open>sentences[i]\<close>; the question quotes at most 100 characters of it.\<close>

definition fallback_mcq :: "string \<Rightarrow> mcq" where
  "fallback_mcq s =
     (let sentence = (if 100 < length s then take 100 s @ ''...'' else s)
      in \<lparr>mcq_question = ''What is the main idea of: '' @ [CHR 0x27] @ sentence @ [CHR 0x27] @ ''?'',
          mcq_answer = s,
          mcq_options = s # fallback_distractors,
          mcq_difficulty = ''medium''\<rparr>)"

definition generate_fallback_mcqs :: "string \<Rightarrow> int \<Rightarrow> mcq list" where
  "generate_fallback_mcqs text max_questions =
     (let sentences = sentences_of text;
          mcqs = map (\<lambda>i. fallback_mcq (sentences ! i))
                   [0 ..< nat (min max_questions (int (length sentences)))]
      in slice_to max_questions mcqs)"

section \<open>The world outside the module\<close>

text \<open>
  What the module reads and calls but does not define.  \<open>env_api_key\<close> is the
  module constant \<open>GEMINI_API_KEY\<close>, the value of \<open>os.getenv\<close>, \<open>None\<close> when the
  variable is not set.  \<open>env_configure\<close> is \<open>genai.configure(api_key=...)\<close> followed
  by \<open>genai.GenerativeModel(...)\<close>: the exception the pair raises, if any.
  \<open>env_generate k\<close> is the outcome of the \<open>k\<close>-th call of \<open>generate_content\<close> in the
  process together with the read of \<open>response.text\<close>: an exception, the value
  \<open>None\<close> or a str.  The provider is a black box: the prompt and the sampling
  parameters decide nothing in the module, and every result below holds for every
  sequence of outcomes.  \<open>env_json_loads\<close> is \<open>json.loads\<close>, \<open>None\<close> when it raises
  \<open>JSONDecodeError\<close>, and \<open>env_render\<close> is \<open>str\<close> on values that are not strings.
  The calls of \<open>print\<close> and of the logger are left out.

  Every function that can call the provider takes the number of calls issued so
  far and returns the number issued when it ends.
\<close>

record env =
  env_api_key :: "string option"
  env_configure :: "string \<Rightarrow> exn option"
  env_generate :: "nat \<Rightarrow> exn + string option"
  env_json_loads :: "string \<Rightarrow> json option"
  env_render :: "json \<Rightarrow> string"

section \<open>The response sanitizer\<close>

text \<open>Three backticks, the fence of a code block.\<close>

definition fence :: string where
  "fence = replicate 3 (CHR 0x60)"

text \<open>
  The pattern \<open>\}\s*\]\<close> at the head of a string: the length of its match.  After
  the brace the whitespace is consumed greedily; giving some of it back cannot help,
  as the next character would be whitespace and not the bracket.
\<close>

definition closes_array :: "string \<Rightarrow> nat option" where
  "closes_array s =
     (case s of
        [] \<Rightarrow> None
      | c # rest \<Rightarrow>
          if c = CHR ''}''
          then (case dropWhile is_space rest of
                  [] \<Rightarrow> None
                | d # _ \<Rightarrow> if d = CHR '']'' then Some (2 + length (takeWhile is_space rest))
                           else None)
          else None)"

text \<open>
  The pattern \<open>.*?\}\s*\]\<close> at the head of a string, with \<open>DOTALL\<close>: the lazy
  \<open>.*?\<close> takes as few characters as a match allows.
\<close>

fun find_close :: "string \<Rightarrow> nat option" where
  "find_close [] = None"
| "find_close (c # cs) =
     (case closes_array (c # cs) of
        Some n \<Rightarrow> Some n
      | None \<Rightarrow> map_option Suc (find_close cs))"

text \<open>The whole pattern \<open>\[\s*\{.*?\}\s*\]\<close> at the head of a string.\<close>

definition match_array_at :: "string \<Rightarrow> nat option" where
  "match_array_at s =
     (case s of
        [] \<Rightarrow> None
      | c # rest \<Rightarrow>
          if c = CHR ''[''
          then (case dropWhile is_space rest of
                  [] \<Rightarrow> None
                | b # body \<Rightarrow>
                    if b = CHR ''{''
                    then map_option (\<lambda>n. 2 + length (takeWhile is_space rest) + n) (find_close body)
                    else None)
          else None)"

text \<open>\<open>re.search(pattern, s, re.DOTALL)\<close>: the match at the leftmost position that has one.\<close>

fun search_array :: "string \<Rightarrow> string option" where
  "search_array [] = None"
| "search_array (c # cs) =
     (case match_array_at (c # cs) of
        Some n \<Rightarrow> Some (take n (c # cs))
      | None \<Rightarrow> search_array cs)"

definition clean_json_response :: "string \<Rightarrow> string" where
  "clean_json_response raw_output =
     (let unfenced =
            (if startswith raw_output (fence @ ''json'') then drop 7 raw_output
             else if startswith raw_output fence then drop 3 raw_output
             else raw_output);
          unclosed =
            (if endswith unfenced fence then take (length unfenced - 3) unfenced
             else unfenced);
          stripped = strip unclosed
      in case search_array stripped of Some found \<Rightarrow> found | None \<Rightarrow> stripped)"

text \<open>
  \<open>json.loads(clean_json_response(response.text.strip()))\<close> for a response text that
  is a str.
\<close>

definition decode :: "env \<Rightarrow> string \<Rightarrow> json option" where
  "decode env response_text = env_json_loads env (clean_json_response (strip response_text))"

section \<open>The English generator\<close>

text \<open>
  The elements that \<open>for mcq in mcqs[:max_questions]\<close> visits: a slice of a list,
  the characters of a slice of a str; any other decoded value cannot be sliced.
\<close>

definition sliced_elems :: "json \<Rightarrow> int \<Rightarrow> exn + json list" where
  "sliced_elems mcqs max_questions =
     (case mcqs of
        JList l \<Rightarrow> Inr (slice_to max_questions l)
      | JStr s \<Rightarrow> Inr (map (\<lambda>c. JStr [c]) (slice_to max_questions s))
      | _ \<Rightarrow> Inl TypeError)"

text \<open>
  Lines 151 to 155: the loop that validates each element and keeps what the
  validator returns.  It stops where the validator raises, and does not return
  where the validator does not.
\<close>

fun validate_each :: "(json \<Rightarrow> string) \<Rightarrow> json list \<Rightarrow> (exn + mcq list) option" where
  "validate_each render [] = Some (Inr [])"
| "validate_each render (raw # rest) =
     (case validate_mcq render raw of
        None \<Rightarrow> None
      | Some (Inl e) \<Rightarrow> Some (Inl e)
      | Some (Inr validated) \<Rightarrow>
          (case validate_each render rest of
             None \<Rightarrow> None
           | Some (Inl e) \<Rightarrow> Some (Inl e)
           | Some (Inr validated_mcqs) \<Rightarrow>
               Some (Inr (case validated of
                            None \<Rightarrow> validated_mcqs
                          | Some m \<Rightarrow> m # validated_mcqs))))"

text \<open>
  Lines 150 to 162 for a decoded value: the loop inside the \<open>try\<close> whose handler
  returns the empty list.
\<close>

definition validate_batch :: "(json \<Rightarrow> string) \<Rightarrow> json \<Rightarrow> int \<Rightarrow> mcq list option" where
  "validate_batch render mcqs max_questions =
     (case sliced_elems mcqs max_questions of
        Inl e \<Rightarrow> Some []
      | Inr elems \<Rightarrow>
          (case validate_each render elems of
             None \<Rightarrow> None
           | Some (Inl e) \<Rightarrow> Some []
           | Some (Inr validated_mcqs) \<Rightarrow> Some validated_mcqs))"

text \<open>
  \<open>generate_english_mcqs\<close>: one call of the provider.  A failure to configure, a
  call that raises, a response without text (\<open>None.strip()\<close>) and a text that does
  not parse all end in the empty list.  The function has no exception among its
  results: its body is one \<open>try\<close> whose handler returns \<open>[]\<close>.
\<close>

definition generate_english_mcqs ::
  "env \<Rightarrow> string \<Rightarrow> int \<Rightarrow> string \<Rightarrow> nat \<Rightarrow> (json list \<times> nat) option"
where
  "generate_english_mcqs env text max_questions api_key calls =
     (case env_configure env api_key of
        Some e \<Rightarrow> Some ([], calls)
      | None \<Rightarrow>
          (case env_generate env calls of
             Inl e \<Rightarrow> Some ([], Suc calls)
           | Inr None \<Rightarrow> Some ([], Suc calls)
           | Inr (Some response_text) \<Rightarrow>
               (case decode env response_text of
                  None \<Rightarrow> Some ([], Suc calls)
                | Some mcqs \<Rightarrow>
                    (case validate_batch (env_render env) mcqs max_questions of
                       None \<Rightarrow> None
                     | Some validated_mcqs \<Rightarrow> Some (map mcq_json validated_mcqs, Suc calls)))))"


section \<open>The translator\<close>

text \<open>\<open>v[key]\<close> for a str key: the value of a dict, a \<open>KeyError\<close> or a \<open>TypeError\<close>.\<close>

definition py_getitem :: "json \<Rightarrow> string \<Rightarrow> exn + json" where
  "py_getitem v key =
     (case v of
        JDict d \<Rightarrow> (case map_of d key of None \<Rightarrow> Inl KeyError | Some x \<Rightarrow> Inr x)
      | _ \<Rightarrow> Inl TypeError)"

text \<open>Whether \<open>v[:60]\<close> succeeds: a str and a list can be sliced, nothing else.\<close>

definition sliceable :: "json \<Rightarrow> bool" where
  "sliceable v = (case v of JStr s \<Rightarrow> True | JList l \<Rightarrow> True | _ \<Rightarrow> False)"

text \<open>\<open>all(k in translated_mcq for k in ['question', 'answer', 'options'])\<close>\<close>

definition has_keys :: "json \<Rightarrow> exn + bool" where
  "has_keys v =
     (case py_in ''question'' v of
        Inl e \<Rightarrow> Inl e
      | Inr False \<Rightarrow> Inr False
      | Inr True \<Rightarrow>
          (case py_in ''answer'' v of
             Inl e \<Rightarrow> Inl e
           | Inr False \<Rightarrow> Inr False
           | Inr True \<Rightarrow> py_in ''options'' v))"

text \<open>
  Lines 228 to 242, for a response that parsed: the translated object if it has
  the three keys and its question, lowered, differs from the lowered original, and
  the English element otherwise.  An exception here is caught at line 249, where
  the English element is appended.
\<close>

definition check_translation :: "json \<Rightarrow> json \<Rightarrow> json \<Rightarrow> json" where
  "check_translation mcq orig_question translated_mcq =
     (case has_keys translated_mcq of
        Inl e \<Rightarrow> mcq
      | Inr False \<Rightarrow> mcq
      | Inr True \<Rightarrow>
          (case orig_question of
             JStr orig \<Rightarrow>
               (case py_getitem translated_mcq ''question'' of
                  Inr (JStr trans_q) \<Rightarrow> if lower orig \<noteq> lower trans_q then translated_mcq else mcq
                | _ \<Rightarrow> mcq)
           | _ \<Rightarrow> mcq))"

text \<open>
  Lines 182 to 251, the body of the loop for one element: what is appended to
  \<open>translated_mcqs\<close>, and the number of calls issued.  The prompt quotes
  \<open>mcq['question'][:60]\<close> before the call, so an element without a question
  that can be sliced falls back to itself with no call.
\<close>

definition translate_item :: "env \<Rightarrow> json \<Rightarrow> nat \<Rightarrow> json \<times> nat" where
  "translate_item env mcq calls =
     (case py_getitem mcq ''question'' of
        Inl e \<Rightarrow> (mcq, calls)
      | Inr orig_question \<Rightarrow>
          if \<not> sliceable orig_question then (mcq, calls)
          else
            (case env_generate env calls of
               Inl e \<Rightarrow> (mcq, Suc calls)
             | Inr None \<Rightarrow> (mcq, Suc calls)
             | Inr (Some response_text) \<Rightarrow>
                 (case decode env response_text of
                    None \<Rightarrow> (mcq, Suc calls)
                  | Some translated_mcq \<Rightarrow>
                      (check_translation mcq orig_question translated_mcq, Suc calls))))"

fun translate_each :: "env \<Rightarrow> json list \<Rightarrow> nat \<Rightarrow> json list \<times> nat" where
  "translate_each env [] calls = ([], calls)"
| "translate_each env (mcq # rest) calls =
     (case translate_item env mcq calls of
        (translated, calls') \<Rightarrow>
          (case translate_each env rest calls' of
             (translated_mcqs, calls'') \<Rightarrow> (translated # translated_mcqs, calls'')))"

text \<open>
  Lines 258 to 268 read \<open>english_mcqs[0]['question']\<close> and
  \<open>translated_mcqs[0]['question']\<close> and lower both: the exception this raises, if
  any.
\<close>

definition first_questions :: "json list \<Rightarrow> json list \<Rightarrow> exn option" where
  "first_questions english_mcqs translated_mcqs =
     (case (english_mcqs, translated_mcqs) of
        (e # _, t # _) \<Rightarrow>
          (case py_getitem e ''question'' of
             Inl x \<Rightarrow> Some x
           | Inr orig_first \<Rightarrow>
               (case py_getitem t ''question'' of
                  Inl x \<Rightarrow> Some x
                | Inr trans_first \<Rightarrow>
                    (case (orig_first, trans_first) of
                       (JStr a, JStr b) \<Rightarrow> None
                     | _ \<Rightarrow> Some AttributeError)))
      | _ \<Rightarrow> Some IndexError)"

text \<open>
  \<open>translate_mcqs_to_language\<close>.  The outer handler returns the English list for
  any exception outside the loop.
\<close>

definition translate_mcqs_to_language ::
  "env \<Rightarrow> json list \<Rightarrow> string \<Rightarrow> string \<Rightarrow> nat \<Rightarrow> json list \<times> nat"
where
  "translate_mcqs_to_language env english_mcqs target_lang api_key calls =
     (if lower target_lang = ''english'' \<or> english_mcqs = [] then (english_mcqs, calls)
      else
        (case env_configure env api_key of
           Some e \<Rightarrow> (english_mcqs, calls)
         | None \<Rightarrow>
             (case translate_each env english_mcqs calls of
                (translated_mcqs, calls') \<Rightarrow>
                  (case first_questions english_mcqs translated_mcqs of
                     Some e \<Rightarrow> (english_mcqs, calls')
                   | None \<Rightarrow> (translated_mcqs, calls')))))"

text \<open>
  The translation of one question in the words of the specification: the response
  of call \<open>k\<close> parses, the parsed value is an object with the keys \<open>question\<close>,
  \<open>answer\<close> and \<open>options\<close>, and its question is a text that differs from the
  original when both are lowered.
\<close>

definition translation_of :: "env \<Rightarrow> string \<Rightarrow> nat \<Rightarrow> json option" where
  "translation_of env orig k =
     (case env_generate env k of
        Inr (Some response_text) \<Rightarrow>
          (case decode env response_text of
             Some (JDict d) \<Rightarrow>
               (case (map_of d ''question'', map_of d ''answer'', map_of d ''options'') of
                  (Some (JStr trans_q), Some a, Some os) \<Rightarrow>
                    if lower trans_q \<noteq> lower orig then Some (JDict d) else None
                | _ \<Rightarrow> None)
           | _ \<Rightarrow> None)
      | _ \<Rightarrow> None)"

text \<open>What the claim expects at one index: the translation if there is one, else the English record.\<close>

definition translated_or_english :: "env \<Rightarrow> mcq \<Rightarrow> nat \<Rightarrow> json" where
  "translated_or_english env m k =
     (case translation_of env (mcq_question m) k of
        Some translated \<Rightarrow> translated
      | None \<Rightarrow> mcq_json m)"

section \<open>The orchestrator\<close>

text \<open>Lines 24 to 32: the text trimmed, and cut to 6000 characters with a marker.\<close>

definition prepare_text :: "string \<Rightarrow> string" where
  "prepare_text text =
     (let trimmed = strip text
      in if 6000 < length trimmed then take 6000 trimmed @ ''... [text truncated]'' else trimmed)"

text \<open>\<open>xs[0]['question'][:60]\<close>, evaluated for a log line: the exception it raises, if any.\<close>

definition peek_question :: "json list \<Rightarrow> exn option" where
  "peek_question xs =
     (case xs of
        [] \<Rightarrow> Some IndexError
      | x # _ \<Rightarrow>
          (case py_getitem x ''question'' of
             Inl e \<Rightarrow> Some e
           | Inr q \<Rightarrow> if sliceable q then None else Some TypeError))"

text \<open>
  Lines 71 to 75: the first questions are compared, and the translated one is
  sliced when they differ.
\<close>

definition compare_first :: "json list \<Rightarrow> json list \<Rightarrow> exn option" where
  "compare_first translated_mcqs english_mcqs =
     (case (translated_mcqs, english_mcqs) of
        (t # _, e # _) \<Rightarrow>
          (case py_getitem t ''question'' of
             Inl x \<Rightarrow> Some x
           | Inr tq \<Rightarrow>
               (case py_getitem e ''question'' of
                  Inl x \<Rightarrow> Some x
                | Inr en \<Rightarrow> if tq \<noteq> en \<and> \<not> sliceable tq then Some TypeError else None))
      | _ \<Rightarrow> Some IndexError)"

text \<open>
  Lines 52 to 80, the rest of the \<open>try\<close> block once the English questions are there
  and not empty: the list returned or the exception raised, with the calls issued.
\<close>

definition after_english ::
  "env \<Rightarrow> json list \<Rightarrow> string \<Rightarrow> int \<Rightarrow> string \<Rightarrow> nat \<Rightarrow> (exn + json list) \<times> nat"
where
  "after_english env english_mcqs language max_questions api_key calls =
     (case peek_question english_mcqs of
        Some e \<Rightarrow> (Inl e, calls)
      | None \<Rightarrow>
          if lower language = ''english'' then (Inr (slice_to max_questions english_mcqs), calls)
          else
            (case translate_mcqs_to_language env english_mcqs language api_key calls of
               (translated_mcqs, calls') \<Rightarrow>
                 if translated_mcqs \<noteq> [] \<and> 0 < length translated_mcqs
                 then (case compare_first translated_mcqs english_mcqs of
                         Some e \<Rightarrow> (Inl e, calls')
                       | None \<Rightarrow> (Inr (slice_to max_questions translated_mcqs), calls'))
                 else (Inr (slice_to max_questions english_mcqs), calls')))"

text \<open>
  \<open>make_mcqs\<close>: \<open>None\<close> when the call never returns, and else what it returns or
  raises together with the number of provider calls issued.  An exception of the
  \<open>try\<close> block is answered with the fallback generator, as is a missing or empty
  key and an empty English list.
\<close>

definition make_mcqs ::
  "env \<Rightarrow> string \<Rightarrow> string \<Rightarrow> int \<Rightarrow> nat \<Rightarrow> ((exn + json list) \<times> nat) option"
where
  "make_mcqs env text0 language max_questions calls =
     (if length (strip text0) < 50 then Some (Inr [], calls)
      else
        (let text = prepare_text text0;
             fallback = map mcq_json (generate_fallback_mcqs text max_questions)
         in case env_api_key env of
              None \<Rightarrow> Some (Inr fallback, calls)
            | Some api_key \<Rightarrow>
                if api_key = [] then Some (Inr fallback, calls)
                else
                  (case generate_english_mcqs env text max_questions api_key calls of
                     None \<Rightarrow> None
                   | Some (english_mcqs, calls') \<Rightarrow>
                       if english_mcqs = [] then Some (Inr fallback, calls')
                       else
                         (case after_english env english_mcqs language max_questions api_key calls' of
                            (Inl e, calls'') \<Rightarrow> Some (Inr fallback, calls'')
                          | (Inr mcqs, calls'') \<Rightarrow> Some (Inr mcqs, calls'')))))"

section \<open>The short-script generator\<close>

definition banned_phrases :: "string list" where
  "banned_phrases =
     [''calm reminder'', ''picture'', ''picture this'', ''why it matters'', ''take a breath'',
      ''walking beside you'', ''imagine'', ''remember'', ''calm'', ''reminder'']"

text \<open>The class \<open>[a-zA-Z]\<close>.\<close>

definition is_ascii_letter :: "char \<Rightarrow> bool" where
  "is_ascii_letter c =
     (let n = (of_char c :: int) in (65 \<le> n \<and> n \<le> 90) \<or> (97 \<le> n \<and> n \<le> 122))"

text \<open>
  \<open>re.sub(r"\s+", " ", text)\<close>: every maximal run of whitespace becomes one space.
  The flag says that the character before was whitespace.
\<close>

fun collapse_from :: "bool \<Rightarrow> string \<Rightarrow> string" where
  "collapse_from in_run [] = []"
| "collapse_from in_run (c # cs) =
     (if is_space c
      then (if in_run then collapse_from True cs else CHR '' '' # collapse_from True cs)
      else c # collapse_from False cs)"

definition collapse_whitespace :: "string \<Rightarrow> string" where
  "collapse_whitespace s = collapse_from False s"

text \<open>
  \<open>_sanitize_plain_text_script\<close>.  \<open>re.sub(r"^```[a-zA-Z]*", "", text)\<close> removes the
  fence at the start and the letters after it; \<open>text[1:-1]\<close> drops the first and
  the last character.
\<close>

definition sanitize_plain_text_script :: "string option \<Rightarrow> string" where
  "sanitize_plain_text_script raw_text =
     (case raw_text of
        None \<Rightarrow> []
      | Some raw \<Rightarrow>
          if raw = [] then []
          else
            (let stripped = strip raw;
                 unfenced =
                   (if startswith stripped fence
                    then (let opened = strip (dropWhile is_ascii_letter (drop 3 stripped))
                          in if endswith opened fence
                             then strip (take (length opened - 3) opened)
                             else opened)
                    else stripped);
                 unquoted =
                   (if startswith unfenced [CHR 0x22] \<and> endswith unfenced [CHR 0x22]
                       \<and> 1 < length unfenced
                    then strip (butlast (tl unfenced))
                    else unfenced)
             in collapse_whitespace unquoted))"

text \<open>\<open>_build_fallback_short_script\<close>\<close>

definition build_fallback_short_script :: "string \<Rightarrow> string" where
  "build_fallback_short_script topic =
     (let safe_topic = (if topic \<noteq> [] then topic else ''this topic'')
      in ''Error: Unable to generate a Quillium Shorts narration for '' @ [CHR 0x27]
         @ safe_topic @ [CHR 0x27] @ '' right now.'' @ '' Please try again in a moment.'')"

text \<open>Lines 523 to 529: the three checks on a script that is not empty.\<close>

definition script_accepted :: "string \<Rightarrow> string \<Rightarrow> bool" where
  "script_accepted normalized_topic script =
     (let lowered = lower script;
          words = py_split script;
          contains_topic = contains (lower normalized_topic) lowered;
          within_length = (120 \<le> length words \<and> length words \<le> 180);
          has_banned = list_ex (\<lambda>phrase. contains phrase lowered) banned_phrases
      in contains_topic \<and> within_length \<and> \<not> has_banned)"

text \<open>
  Lines 506 to 550, the loop \<open>while attempts < 2\<close>.  The result is the exception
  raised inside it, or the script returned from inside it, or \<open>None\<close> when the loop
  is left; then the number of provider calls issued, and for each call issued the
  value of \<open>strict_mode\<close> it was made with (the strict prompt and the lower
  temperature go with \<open>True\<close>).
\<close>

function shorts_loop ::
  "env \<Rightarrow> string \<Rightarrow> bool \<Rightarrow> nat \<Rightarrow> nat \<Rightarrow> (exn + string option) \<times> nat \<times> bool list"
where
  "shorts_loop env normalized_topic strict_mode attempts calls =
     (if attempts < 2
      then (case env_generate env calls of
              Inl e \<Rightarrow> (Inl e, Suc calls, [strict_mode])
            | Inr response_text \<Rightarrow>
                (let script = sanitize_plain_text_script response_text
                 in if script \<noteq> [] \<and> script_accepted normalized_topic script
                    then (Inr (Some script), Suc calls, [strict_mode])
                    else if strict_mode then (Inr None, Suc calls, [strict_mode])
                    else (case shorts_loop env normalized_topic True (Suc attempts) (Suc calls) of
                            (r, calls', issued) \<Rightarrow> (r, calls', strict_mode # issued))))
      else (Inr None, calls, []))"
  by pat_completeness auto
termination
  by (relation "measure (\<lambda>(env, normalized_topic, strict_mode, attempts, calls). 2 - attempts)") auto

text \<open>
  \<open>generate_short_form_script\<close>: what it returns or raises, the number of provider
  calls issued when it ends, and the strictness of each call it issued.
\<close>

definition generate_short_form_script ::
  "env \<Rightarrow> string \<Rightarrow> nat \<Rightarrow> (exn + string) \<times> nat \<times> bool list"
where
  "generate_short_form_script env topic calls =
     (let normalized_topic = strip topic
      in if normalized_topic = [] then (Inl ValueError, calls, [])
         else
           (let error_message = build_fallback_short_script normalized_topic
            in case env_api_key env of
                 None \<Rightarrow> (Inr error_message, calls, [])
               | Some api_key \<Rightarrow>
                   if api_key = [] then (Inr error_message, calls, [])
                   else
                     (case env_configure env api_key of
                        Some e \<Rightarrow> (Inr error_message, calls, [])
                      | None \<Rightarrow>
                          (case shorts_loop env normalized_topic False 0 calls of
                             (Inl e, calls', issued) \<Rightarrow> (Inr error_message, calls', issued)
                           | (Inr None, calls', issued) \<Rightarrow> (Inr error_message, calls', issued)
                           | (Inr (Some script), calls', issued) \<Rightarrow> (Inr script, calls', issued)))))"

section \<open>Example inputs\<close>

text \<open>A rendering for the examples, none of which holds a value that is not a str.\<close>

definition render_none :: "json \<Rightarrow> string" where
  "render_none v = []"

text \<open>A question with five distinct options whose answer is the fifth.\<close>

definition planets_mcq :: json where
  "planets_mcq =
     raw_mcq ''Which planet is the largest?'' ''Jupiter''
       [''Mars'', ''Venus'', ''Earth'', ''Saturn'', ''Jupiter''] ''easy''"

text \<open>
  A "who" question whose three distractors are vague, so that only the answer
  survives the cleaning.
\<close>

definition gravity_mcq :: json where
  "gravity_mcq =
     raw_mcq ''Who discovered gravity?'' ''Isaac Newton''
       [''Isaac Newton'', ''Someone else'', ''Not this person'', ''A wrong answer''] ''easy''"

text \<open>A question with one vague option and one that repeats another in capitals.\<close>

definition padded_mcq :: json where
  "padded_mcq =
     raw_mcq ''What is it?'' ''b'' [''A'', ''B'', ''wrong one'', ''b'', '' C ''] ''Zzz''"

definition padded_result :: mcq where
  "padded_result =
     \<lparr>mcq_question = ''What is it?'', mcq_answer = ''A'',
      mcq_options = [''A'', ''B'', ''C'', ''A similar but distinct element''],
      mcq_difficulty = ''easy''\<rparr>"

text \<open>
  Two records that satisfy the invariants of the data model; the second option of
  the first one starts with a space.
\<close>

definition france_untrimmed :: mcq where
  "france_untrimmed =
     \<lparr>mcq_question = ''What is the capital of France?'', mcq_answer = ''Paris'',
      mcq_options = [''Paris'', '' Lyon'', ''Nice'', ''Lille''],
      mcq_difficulty = ''easy''\<rparr>"

definition france_trimmed :: mcq where
  "france_trimmed =
     \<lparr>mcq_question = ''What is the capital of France?'', mcq_answer = ''Paris'',
      mcq_options = [''Paris'', ''Lyon'', ''Nice'', ''Lille''],
      mcq_difficulty = ''easy''\<rparr>"

text \<open>A text of two sentences; the second piece starts with a space.\<close>

definition two_sentences :: string where
  "two_sentences = ''The sun is a star at the centre. The moon orbits the earth monthly.''"

text \<open>A raw question with two options only, which the validator rejects.\<close>

definition two_options_raw :: json where
  "two_options_raw = raw_mcq ''What is the capital of France?'' ''Paris'' [''Paris'', ''Lyon''] ''easy''"

text \<open>A decoded array of six elements: the rejected one, then five valid ones.\<close>

definition six_raws :: "json list" where
  "six_raws = two_options_raw # replicate 5 (mcq_json france_trimmed)"

definition france_french :: mcq where
  "france_french =
     \<lparr>mcq_question = ''Quelle est la capitale de la France ?'', mcq_answer = ''Paris'',
      mcq_options = [''Paris'', ''Lyon'', ''Nice'', ''Lille''],
      mcq_difficulty = ''easy''\<rparr>"

text \<open>
  A world with a key, where the first call of the provider answers with the array
  \<open>six_raws\<close>, the second with a French translation and every later call raises.
  Its parser knows the two responses.
\<close>

definition demo_generate :: "nat \<Rightarrow> exn + string option" where
  "demo_generate k =
     (if k = 0 then Inr (Some ''batch'')
      else if k = 1 then Inr (Some ''capitale'')
      else Inl ProviderError)"

definition demo_loads :: "string \<Rightarrow> json option" where
  "demo_loads s =
     (if s = ''batch'' then Some (JList six_raws)
      else if s = ''capitale'' then Some (mcq_json france_french)
      else None)"

definition demo_configure :: "string \<Rightarrow> exn option" where
  "demo_configure api_key = None"

definition demo_env :: env where
  "demo_env =
     \<lparr>env_api_key = Some ''key'', env_configure = demo_configure,
      env_generate = demo_generate, env_json_loads = demo_loads,
      env_render = render_none\<rparr>"

text \<open>The same world without a key.\<close>

definition offline_env :: env where
  "offline_env = demo_env\<lparr>env_api_key := None\<rparr>"

text \<open>A text of 61 characters none of whose sentences is longer than 20 characters.\<close>

definition choppy_text :: string where
  "choppy_text = ''Yes. No. Maybe so. Yes. No. Maybe so. Yes. No. Maybe so. Yes.''"

text \<open>
  A world for the short scripts: the first response is a refusal, the second a
  script of 120 words.
\<close>

definition cat_script :: string where
  "cat_script = concat (replicate 120 ''cat '')"

definition shorts_generate :: "nat \<Rightarrow> exn + string option" where
  "shorts_generate k = (if k = 0 then Inr (Some ''I cannot help with that.'') else Inr (Some cat_script))"

definition shorts_env :: env where
  "shorts_env = demo_env\<lparr>env_generate := shorts_generate\<rparr>"

section \<open>Properties of the validator\<close>

subsection \<open>The state of the two loops\<close>

lemma filler_in_pools:
  "generate_meaningful_filler q a i \<in> set (people @ capitals @ years @ generic)"
proof -
  have "people ! (i mod length people) \<in> set people"
    by (rule nth_mem) (simp add: people_def)
  moreover have "capitals ! (i mod length capitals) \<in> set capitals"
    by (rule nth_mem) (simp add: capitals_def)
  moreover have "years ! (i mod length years) \<in> set years"
    by (rule nth_mem) (simp add: years_def)
  moreover have "generic ! (i mod length generic) \<in> set generic"
    by (rule nth_mem) (simp add: generic_def)
  ultimately show ?thesis
    by (simp add: generate_meaningful_filler_def Let_def)
qed

lemma pools_good: "list_all good_option (people @ capitals @ years @ generic)"
  by code_simp

lemma filler_good: "good_option (generate_meaningful_filler q a i)"
  using pools_good filler_in_pools [of q a i] unfolding list_all_iff by blast

lemma sound_state_add:
  assumes "sound_state cleaned seen" "good_option opt" "lower opt \<notin> seen"
  shows "sound_state (cleaned @ [opt]) (insert (lower opt) seen)"
  using assms by (auto simp: sound_state_def)

lemma clean_options_sound:
  "sound_state cleaned seen \<Longrightarrow> clean_options render elems cleaned seen = (cleaned', seen')
   \<Longrightarrow> sound_state cleaned' seen'"
proof (induction elems arbitrary: cleaned seen)
  case Nil
  then show ?case by simp
next
  case (Cons opt rest)
  show ?case
  proof (cases "strip (py_str render opt) \<noteq> [] \<and> \<not> too_vague (lower (strip (py_str render opt)))
                \<and> lower (strip (py_str render opt)) \<notin> seen")
    case True
    then have "sound_state (cleaned @ [strip (py_str render opt)]) (insert (lower (strip (py_str render opt))) seen)"
      using Cons.prems(1) by (intro sound_state_add) (simp_all add: good_option_def)
    moreover have "clean_options render rest (cleaned @ [strip (py_str render opt)])
        (insert (lower (strip (py_str render opt))) seen) = (cleaned', seen')"
      using Cons.prems(2) True by (simp add: Let_def)
    ultimately show ?thesis by (rule Cons.IH)
  next
    case False
    then have "clean_options render rest cleaned seen = (cleaned', seen')"
      using Cons.prems(2) by (auto simp: Let_def split: if_splits)
    with Cons.prems(1) show ?thesis by (rule Cons.IH)
  qed
qed

lemma fill_loop_sound:
  "fill_loop q a cleaned seen = Some r \<Longrightarrow> sound_state cleaned seen
   \<Longrightarrow> sound_state (fst r) (snd r) \<and> 4 \<le> length (fst r)"
proof (induction q a cleaned seen r rule: fill_loop.raw_induct [rotated 1, consumes 1])
  case (1 f q a cleaned seen r)
  show ?case
  proof (cases "length cleaned < 4")
    case False
    with 1 show ?thesis by auto
  next
    case True
    let ?fl = "generate_meaningful_filler q a (length cleaned)"
    show ?thesis
    proof (cases "lower ?fl \<in> seen")
      case True
      with \<open>length cleaned < 4\<close> 1 show ?thesis by (auto simp: Let_def)
    next
      case False
      with \<open>length cleaned < 4\<close> 1(2)
      have "f q a (cleaned @ [?fl]) (insert (lower ?fl) seen) = Some r"
        by (simp add: Let_def)
      moreover have "sound_state (cleaned @ [?fl]) (insert (lower ?fl) seen)"
        using 1(3) filler_good False by (rule sound_state_add)
      ultimately show ?thesis by (rule 1(1))
    qed
  qed
qed

lemma fill_loop_stuck:
  assumes "length cleaned < 4"
    and "lower (generate_meaningful_filler q a (length cleaned)) \<in> seen"
  shows "fill_loop q a cleaned seen = None"
proof (rule ccontr)
  assume "fill_loop q a cleaned seen \<noteq> None"
  then obtain r where "fill_loop q a cleaned seen = Some r" by auto
  then have "\<not> (length cleaned < 4 \<and> lower (generate_meaningful_filler q a (length cleaned)) \<in> seen)"
    by (induction q a cleaned seen r rule: fill_loop.raw_induct [rotated 1, consumes 1])
      (auto simp: Let_def split: if_splits)
  with assms show False by simp
qed

lemma validate_options_accepts:
  assumes "validate_options render q a d opts = Some (Inr (Some m))"
  shows "\<exists>cleaned seen. sound_state cleaned seen \<and> 4 \<le> length cleaned
           \<and> mcq_options m = take 4 cleaned \<and> mcq_question m = q
           \<and> mcq_answer m \<in> set cleaned"
proof -
  from assms obtain n a' elems cleaned0 seen0 cleaned seen where
      "clean_options render elems [] {} = (cleaned0, seen0)"
      and fl: "fill_loop q a' cleaned0 seen0 = Some (cleaned, seen)"
      and fin: "finish_mcq q a' d cleaned = Inr (Some m)"
    unfolding validate_options_def
    by (auto split: sum.splits if_splits prod.splits option.splits)
  moreover have "sound_state [] {}" by (simp add: sound_state_def)
  ultimately have "sound_state cleaned0 seen0" using clean_options_sound by blast
  with fl have s: "sound_state cleaned seen" "4 \<le> length cleaned"
    using fill_loop_sound by fastforce+
  from fin have "mcq_options m = take 4 cleaned" "mcq_question m = q" "mcq_answer m \<in> set cleaned"
    by (auto simp: finish_mcq_def Let_def split: list.splits if_splits)
  with s show ?thesis by blast
qed

lemma validate_mcq_accepts:
  assumes "validate_mcq render raw = Some (Inr (Some m))"
  shows "\<exists>q a d opts. validate_options render q a d opts = Some (Inr (Some m))"
  using assms unfolding validate_mcq_def
  by (auto simp: Let_def split: json.splits if_splits sum.splits)


subsection \<open>Dicts whose four values are strings\<close>

lemma validate_mcq_raw:
  "validate_mcq render (raw_mcq q a os d) =
     (if strip q = [] \<or> strip a = [] \<or> os = [] then Some (Inr None)
      else validate_options render (strip q) (strip a) (lower (strip d)) (JList (map JStr os)))"
  by (simp add: validate_mcq_def raw_mcq_def get_stripped_def truthy_def Let_def)

lemma validate_options_list:
  assumes "4 \<le> length os"
    and "resolve_answer a (JList (map JStr os)) = Inr a'"
    and "clean_options render (map JStr os) [] {} = (cleaned, seen)"
  shows "validate_options render q a d (JList (map JStr os)) =
     (case fill_loop q a' cleaned seen of
        None \<Rightarrow> None
      | Some (cleaned_options, seen') \<Rightarrow> Some (finish_mcq q a' d cleaned_options))"
  using assms by (simp add: validate_options_def py_len_def py_iter_def)

subsection \<open>Answer and options of an accepted question\<close>

text \<open>
  C1.  An accepted record has exactly four options, but its answer need not be one
  of them: the answer is looked up in all the cleaned options and the options are
  cut to four afterwards.  On \<open>planets_mcq\<close>, whose answer is the fifth of five
  distinct options, the validator returns the first four options and the answer
  \<open>Jupiter\<close>, which is none of them.
\<close>

theorem answer_outside_options:
  "validate_mcq render_none planets_mcq =
     Some (Inr (Some \<lparr>mcq_question = ''Which planet is the largest?'', mcq_answer = ''Jupiter'',
                      mcq_options = [''Mars'', ''Venus'', ''Earth'', ''Saturn''],
                      mcq_difficulty = ''easy''\<rparr>))"
  by code_simp

subsection \<open>The filler loop\<close>

text \<open>
  C2.  The filler loop does not always end.  On \<open>gravity_mcq\<close> the cleaning keeps
  only \<open>Isaac Newton\<close>; the filler for a "who" question at index 1 is
  \<open>Isaac Newton\<close> again, it is skipped as already seen, and neither the list nor
  the index changes: the call never returns.
\<close>

theorem filler_loop_never_ends: "validate_mcq render_none gravity_mcq = None"
proof -
  let ?q = "''Who discovered gravity?''" and ?a = "''Isaac Newton''"
  let ?os = "[''Isaac Newton'', ''Someone else'', ''Not this person'', ''A wrong answer'']"
  have fields: "strip ?q = ?q" "strip ?a = ?a" "lower (strip ''easy'') = ''easy''"
    by code_simp+
  have res: "resolve_answer ?a (JList (map JStr ?os)) = Inr ?a"
    by (simp add: resolve_answer_def py_in_def)
  have cl: "clean_options render_none (map JStr ?os) [] {} = ([''Isaac Newton''], {''isaac newton''})"
    by code_simp
  have "lower (generate_meaningful_filler ?q ?a (length [''Isaac Newton''])) \<in> {''isaac newton''}"
    by code_simp
  then have "fill_loop ?q ?a [''Isaac Newton''] {''isaac newton''} = None"
    by (intro fill_loop_stuck) simp_all
  then have "validate_options render_none ?q ?a ''easy'' (JList (map JStr ?os)) = None"
    by (subst validate_options_list [OF _ res cl]) simp_all
  then show ?thesis
    unfolding gravity_mcq_def validate_mcq_raw by (simp only: fields) simp
qed

subsection \<open>The options of an accepted question\<close>

text \<open>
  C7.  Every option of an accepted record, supplied or synthesized, is non-empty,
  its lower form contains none of the vague terms, and no two options have the same
  lower form.
\<close>

theorem accepted_options_clean:
  assumes "validate_mcq render raw = Some (Inr (Some m))"
  shows "(\<forall>opt \<in> set (mcq_options m).
            opt \<noteq> [] \<and> (\<forall>t \<in> set vague_terms. \<not> contains t (lower opt)))
         \<and> distinct (map lower (mcq_options m))"
proof -
  from assms obtain q a d opts where
    "validate_options render q a d opts = Some (Inr (Some m))"
    using validate_mcq_accepts by blast
  then obtain cleaned seen where st: "sound_state cleaned seen"
      and opts: "mcq_options m = take 4 cleaned"
    using validate_options_accepts by blast
  from st have good: "\<forall>opt \<in> set cleaned. good_option opt"
    and dist: "distinct (map lower cleaned)"
    by (auto simp: sound_state_def list_all_iff)
  have "\<forall>opt \<in> set (take 4 cleaned). good_option opt"
    using good by (meson in_set_takeD)
  moreover have "distinct (map lower (take 4 cleaned))"
    using dist by (simp add: take_map [symmetric] distinct_take)
  ultimately show ?thesis
    unfolding opts good_option_def too_vague_def list_ex_iff by blast
qed

theorem accepted_options_clean_witness:
  "validate_mcq render_none padded_mcq = Some (Inr (Some padded_result))
   \<and> list_all (\<lambda>opt. opt \<noteq> [] \<and> list_all (\<lambda>t. \<not> contains t (lower opt)) vague_terms)
        (mcq_options padded_result)
   \<and> distinct (map lower (mcq_options padded_result))"
proof -
  have h: "validate_mcq render_none padded_mcq = Some (Inr (Some padded_result))"
    by code_simp
  show ?thesis
    using h accepted_options_clean [OF h] by (simp add: list_all_iff)
qed

subsection \<open>Validating a valid record again\<close>

lemma clean_options_keep:
  assumes "list_all (\<lambda>opt. strip opt = opt \<and> opt \<noteq> [] \<and> \<not> too_vague (lower opt)) os"
    and "distinct (map lower os)"
    and "set (map lower os) \<inter> seen = {}"
  shows "clean_options render (map JStr os) cleaned seen = (cleaned @ os, seen \<union> set (map lower os))"
  using assms
proof (induction os arbitrary: cleaned seen)
  case Nil
  then show ?case by simp
next
  case (Cons opt os)
  from Cons.prems have opt: "strip opt = opt" "opt \<noteq> []" "\<not> too_vague (lower opt)" "lower opt \<notin> seen"
    by auto
  have "clean_options render (map JStr os) (cleaned @ [opt]) (insert (lower opt) seen)
        = ((cleaned @ [opt]) @ os, insert (lower opt) seen \<union> set (map lower os))"
    using Cons.prems by (intro Cons.IH) auto
  with opt show ?case by (simp add: py_str_def Let_def)
qed

lemma labels_fixed:
  assumes "d \<in> set [''easy'', ''medium'', ''hard'']"
  shows "lower (strip d) = d"
proof -
  have "lower (strip ''easy'') = ''easy''" "lower (strip ''medium'') = ''medium''"
    "lower (strip ''hard'') = ''hard''"
    by code_simp+
  with assms show ?thesis by auto
qed

text \<open>
  C8, as amended.  A record that satisfies the invariants of the data model and
  whose options are all trimmed and non-empty is returned as it is, whatever the
  rendering of non-string values.
\<close>

theorem validate_idempotent:
  assumes "data_model_valid m" and "options_trimmed m"
  shows "validate_mcq render (mcq_json m) = Some (Inr (Some m))"
proof -
  let ?q = "mcq_question m" and ?a = "mcq_answer m" and ?os = "mcq_options m"
  let ?d = "mcq_difficulty m"
  from assms(1) have q: "strip ?q = ?q" "?q \<noteq> []" and a: "strip ?a = ?a" "?a \<noteq> []"
    and len: "length ?os = 4" and dist: "distinct (map lower ?os)"
    and vague: "list_all (\<lambda>opt. \<not> too_vague (lower opt)) ?os"
    and mem: "?a \<in> set ?os" and d: "?d \<in> set [''easy'', ''medium'', ''hard'']"
    by (simp_all add: data_model_valid_def)
  from len have ne: "?os \<noteq> []" by auto
  have res: "resolve_answer ?a (JList (map JStr ?os)) = Inr ?a"
    using mem by (simp add: resolve_answer_def py_in_def)
  have "list_all (\<lambda>opt. strip opt = opt \<and> opt \<noteq> [] \<and> \<not> too_vague (lower opt)) ?os"
    using vague assms(2) by (simp add: options_trimmed_def list_all_iff)
  then have cl: "clean_options render (map JStr ?os) [] {} = (?os, set (map lower ?os))"
    using clean_options_keep [of ?os "{}" render "[]"] dist by simp
  have fl: "fill_loop ?q ?a ?os (set (map lower ?os)) = Some (?os, set (map lower ?os))"
    using len by (subst fill_loop.simps) simp
  have fin: "finish_mcq ?q ?a ?d ?os = Inr (Some m)"
    using mem ne len d by (cases ?os) (auto simp: finish_mcq_def derive_difficulty_def)
  have "validate_options render ?q ?a ?d (JList (map JStr ?os)) = Some (Inr (Some m))"
    using len by (subst validate_options_list [OF _ res cl]) (simp_all add: fl [simplified] fin)
  then show ?thesis
    using q a ne labels_fixed [OF d] by (simp add: mcq_json_def validate_mcq_raw)
qed

theorem validate_idempotent_witness:
  "data_model_valid france_trimmed \<and> options_trimmed france_trimmed
   \<and> validate_mcq render_none (mcq_json france_trimmed) = Some (Inr (Some france_trimmed))"
proof -
  have h1: "data_model_valid france_trimmed" by code_simp
  have h2: "options_trimmed france_trimmed" by code_simp
  show ?thesis using h1 h2 validate_idempotent [OF h1 h2] by simp
qed

text \<open>
  The invariants alone do not suffice: \<open>france_untrimmed\<close> satisfies them, and the
  validator returns it with the option \<open>Lyon\<close> trimmed.
\<close>

theorem untrimmed_option_counterexample:
  "data_model_valid france_untrimmed
   \<and> validate_mcq render_none (mcq_json france_untrimmed) = Some (Inr (Some france_trimmed))
   \<and> france_trimmed \<noteq> france_untrimmed"
  by code_simp

section \<open>Properties of the fallback generator\<close>

lemma map_nth_upt_take: "k \<le> length xs \<Longrightarrow> map (\<lambda>i. f (xs ! i)) [0 ..< k] = map f (take k xs)"
  by (simp add: list_eq_iff_nth_eq)

lemma generate_fallback_mcqs_take:
  "generate_fallback_mcqs text n = map fallback_mcq (take (nat n) (sentences_of text))"
proof (cases "0 \<le> n")
  case False
  then show ?thesis by (simp add: generate_fallback_mcqs_def slice_to_def Let_def)
next
  case True
  let ?S = "sentences_of text"
  have k: "nat (min n (int (length ?S))) = min (nat n) (length ?S)"
    using True by arith
  have "map (\<lambda>i. fallback_mcq (?S ! i)) [0 ..< min (nat n) (length ?S)]
        = map fallback_mcq (take (min (nat n) (length ?S)) ?S)"
    by (rule map_nth_upt_take) simp
  also have "\<dots> = map fallback_mcq (take (nat n) ?S)" by (simp add: min_def)
  finally show ?thesis
    using True by (simp add: generate_fallback_mcqs_def slice_to_def Let_def k)
qed

text \<open>
  C9, as amended.  The pieces of the text between the separators \<open>.\<close>, \<open>!\<close> and
  \<open>?\<close> that are longer than 20 characters once trimmed are kept, in order.  The
  generator returns \<open>min max_questions N\<close> records for \<open>N\<close> kept pieces, and none
  for a negative \<open>max_questions\<close>; the answer of the \<open>i\<close>-th record is the
  \<open>i\<close>-th kept piece, trimmed, which is also its first option, and the other three
  options are the three fixed phrases.
\<close>

theorem fallback_mcqs_shape:
  "let kept = filter (\<lambda>s. 20 < length (strip s)) (split_sentences text);
       result = generate_fallback_mcqs text max_questions
   in int (length result) = max 0 (min max_questions (int (length kept)))
      \<and> (\<forall>i < length result.
            mcq_answer (result ! i) = strip (kept ! i)
            \<and> mcq_options (result ! i) =
                [strip (kept ! i), ''A different concept from the text'',
                 ''An alternative interpretation'', ''Related information''])"
proof -
  define kept where "kept = filter (\<lambda>s. 20 < length (strip s)) (split_sentences text)"
  define result where "result = generate_fallback_mcqs text max_questions"
  have r: "result = map fallback_mcq (take (nat max_questions) (map strip kept))"
    unfolding result_def kept_def generate_fallback_mcqs_take sentences_of_def ..
  then have "length result = min (length kept) (nat max_questions)" by simp
  then have len: "int (length result) = max 0 (min max_questions (int (length kept)))"
    by arith
  have "\<forall>i < length result. result ! i = fallback_mcq (strip (kept ! i))"
    unfolding r by simp
  then have "int (length result) = max 0 (min max_questions (int (length kept)))
      \<and> (\<forall>i < length result.
            mcq_answer (result ! i) = strip (kept ! i)
            \<and> mcq_options (result ! i) =
                [strip (kept ! i), ''A different concept from the text'',
                 ''An alternative interpretation'', ''Related information''])"
    using len by (simp add: fallback_mcq_def fallback_distractors_def Let_def)
  then show ?thesis
    unfolding kept_def result_def Let_def .
qed

theorem fallback_mcqs_shape_witness:
  "int (length (generate_fallback_mcqs two_sentences 5)) = 2
   \<and> map mcq_answer (generate_fallback_mcqs two_sentences 5) =
       [''The sun is a star at the centre'', ''The moon orbits the earth monthly'']
   \<and> mcq_options (generate_fallback_mcqs two_sentences 5 ! 1) =
       [''The moon orbits the earth monthly'', ''A different concept from the text'',
        ''An alternative interpretation'', ''Related information'']"
proof -
  have k: "filter (\<lambda>s. 20 < length (strip s)) (split_sentences two_sentences) =
      [''The sun is a star at the centre'', '' The moon orbits the earth monthly'']"
    by code_simp
  have s: "strip '' The moon orbits the earth monthly'' = ''The moon orbits the earth monthly''"
    "strip ''The sun is a star at the centre'' = ''The sun is a star at the centre''"
    by code_simp+
  have l: "length (generate_fallback_mcqs two_sentences 5) = 2"
    using fallback_mcqs_shape [of two_sentences 5] by (simp add: Let_def k)
  have all: "\<forall>i < 2. mcq_answer (generate_fallback_mcqs two_sentences 5 ! i) =
        strip ([''The sun is a star at the centre'', '' The moon orbits the earth monthly''] ! i)
      \<and> mcq_options (generate_fallback_mcqs two_sentences 5 ! i) =
          [strip ([''The sun is a star at the centre'', '' The moon orbits the earth monthly''] ! i),
           ''A different concept from the text'',
           ''An alternative interpretation'', ''Related information'']"
    using fallback_mcqs_shape [of two_sentences 5] unfolding Let_def k l by blast
  have a0: "mcq_answer (generate_fallback_mcqs two_sentences 5 ! 0) = ''The sun is a star at the centre''"
    using all [rule_format, of 0] s by simp
  have a1: "mcq_answer (generate_fallback_mcqs two_sentences 5 ! 1) = ''The moon orbits the earth monthly''"
    "mcq_options (generate_fallback_mcqs two_sentences 5 ! 1) =
       [''The moon orbits the earth monthly'', ''A different concept from the text'',
        ''An alternative interpretation'', ''Related information'']"
    using all [rule_format, of 1] s by simp_all
  have "map mcq_answer (generate_fallback_mcqs two_sentences 5) =
       [''The sun is a star at the centre'', ''The moon orbits the earth monthly'']"
    using l a0 a1(1) by (simp add: list_eq_iff_nth_eq less_Suc_eq numeral_2_eq_2)
  then show ?thesis using l a1(2) by simp
qed

text \<open>
  As the claim is worded it fails twice on \<open>two_sentences\<close>: for the count \<open>-1\<close>
  the generator returns no record, not \<open>min (-1) N\<close> of them; and the second
  piece longer than 20 characters starts with a space, which the answer of the
  second record does not.
\<close>

theorem fallback_counterexample:
  "int (length (generate_fallback_mcqs two_sentences (- 1)))
     \<noteq> min (- 1) (int (length (filter (\<lambda>s. 20 < length s) (split_sentences two_sentences))))
   \<and> mcq_answer (generate_fallback_mcqs two_sentences 5 ! 1)
     \<noteq> filter (\<lambda>s. 20 < length s) (split_sentences two_sentences) ! 1"
  by code_simp

section \<open>Properties of the English generator\<close>






section \<open>Properties of the translator\<close>

text \<open>
  C6.  For the target language English, in any casing, the translator returns the
  list it was given and the number of provider calls it was given: it issues none.
\<close>

theorem translate_english_identity:
  "lower target_lang = ''english''
   \<Longrightarrow> translate_mcqs_to_language env mcqs target_lang api_key calls = (mcqs, calls)"
  by (simp add: translate_mcqs_to_language_def)

theorem translate_english_identity_witness:
  "lower ''ENGLISH'' = ''english''
   \<and> translate_mcqs_to_language demo_env [mcq_json france_trimmed, two_options_raw] ''ENGLISH'' ''key'' 0
       = ([mcq_json france_trimmed, two_options_raw], 0)"
proof -
  have h: "lower ''ENGLISH'' = ''english''" by code_simp
  show ?thesis using h translate_english_identity [OF h] by simp
qed

lemma py_in_dict: "py_in k (JDict d) = Inr (map_of d k \<noteq> None)"
  by (simp add: py_in_def dict_keys_def map_of_eq_None_iff)

lemma check_translation_eq:
  "check_translation mcq (JStr orig) translated_mcq =
     (case translated_mcq of
        JDict d \<Rightarrow>
          (case (map_of d ''question'', map_of d ''answer'', map_of d ''options'') of
             (Some (JStr trans_q), Some a, Some os) \<Rightarrow>
               if lower trans_q \<noteq> lower orig then JDict d else mcq
           | _ \<Rightarrow> mcq)
      | _ \<Rightarrow> mcq)"
proof (cases translated_mcq)
  case (JDict d)
  then show ?thesis
    by (auto simp: check_translation_def has_keys_def py_in_dict py_getitem_def
             split: option.splits json.splits)
qed (auto simp: check_translation_def has_keys_def py_in_def py_getitem_def
          split: sum.splits bool.splits)

lemma translate_item_mcq:
  "translate_item env (mcq_json m) calls = (translated_or_english env m calls, Suc calls)"
proof -
  have q: "py_getitem (mcq_json m) ''question'' = Inr (JStr (mcq_question m))"
    by (simp add: mcq_json_def raw_mcq_def py_getitem_def)
  show ?thesis
    unfolding translate_item_def q translation_of_def translated_or_english_def
    by (auto simp: sliceable_def check_translation_eq
             split: sum.splits option.splits json.splits)
qed

lemma translate_each_mcqs:
  "translate_each env (map mcq_json ms) calls =
     (map (\<lambda>i. translated_or_english env (ms ! i) (calls + i)) [0 ..< length ms],
      calls + length ms)"
proof (induction ms arbitrary: calls)
  case Nil
  then show ?case by simp
next
  case (Cons m ms)
  have "[0 ..< length (m # ms)] = 0 # map Suc [0 ..< length ms]"
    by (simp add: upt_conv_Cons map_Suc_upt del: upt_Suc)
  then show ?case
    by (simp add: translate_item_mcq Cons.IH comp_def del: upt_Suc)
qed

lemma translated_or_english_question:
  "\<exists>q. py_getitem (translated_or_english env m k) ''question'' = Inr (JStr q)"
  by (auto simp: translated_or_english_def translation_of_def py_getitem_def
                 mcq_json_def raw_mcq_def
           split: sum.splits option.splits json.splits if_splits)

text \<open>
  C5.  For a non-empty list of validated English records and a target language
  other than English, the translator returns a list of the same length.  When the
  provider cannot be configured it is the English list.  Otherwise the element at
  index \<open>i\<close> is decided by the record at index \<open>i\<close> and the outcome of the
  \<open>i\<close>-th call alone: it is the parsed translation when the response parses to an
  object with the three keys whose question is a text that differs, lowered, from
  the lowered original, and the English record at that index in every other case.
\<close>

theorem translate_per_item:
  assumes "lower target_lang \<noteq> ''english''" and "ms \<noteq> []"
  shows "case translate_mcqs_to_language env (map mcq_json ms) target_lang api_key calls of
           (result, calls') \<Rightarrow>
             length result = length ms
             \<and> (env_configure env api_key \<noteq> None \<longrightarrow> result = map mcq_json ms)
             \<and> (env_configure env api_key = None \<longrightarrow>
                  (\<forall>i < length ms. result ! i = translated_or_english env (ms ! i) (calls + i)))"
proof (cases "env_configure env api_key")
  case (Some e)
  with assms show ?thesis by (simp add: translate_mcqs_to_language_def)
next
  case None
  let ?item = "\<lambda>i. translated_or_english env (ms ! i) (calls + i)"
  let ?tr = "map ?item [0 ..< length ms]"
  from assms(2) obtain m rest where ms: "ms = m # rest" by (cases ms) auto
  obtain q where q: "py_getitem (?item 0) ''question'' = Inr (JStr q)"
    using translated_or_english_question by blast
  have hd: "?tr = ?item 0 # map ?item [1 ..< length ms]"
    unfolding ms by (simp add: upt_conv_Cons del: upt_Suc)
  have "first_questions (map mcq_json ms) ?tr = None"
    unfolding hd using q
    by (simp add: first_questions_def ms mcq_json_def raw_mcq_def py_getitem_def)
  then have "translate_mcqs_to_language env (map mcq_json ms) target_lang api_key calls
      = (?tr, calls + length ms)"
    using assms None by (simp add: translate_mcqs_to_language_def translate_each_mcqs)
  with None show ?thesis by simp
qed

theorem translate_per_item_witness:
  "lower ''French'' \<noteq> ''english'' \<and> [france_trimmed, france_trimmed] \<noteq> []
   \<and> env_configure demo_env ''key'' = None
   \<and> translated_or_english demo_env france_trimmed 1 = mcq_json france_french
   \<and> translated_or_english demo_env france_trimmed 2 = mcq_json france_trimmed
   \<and> translate_mcqs_to_language demo_env (map mcq_json [france_trimmed, france_trimmed])
        ''French'' ''key'' 1
       = ([mcq_json france_french, mcq_json france_trimmed], 3)"
proof -
  have h1: "lower ''French'' \<noteq> ''english''" by code_simp
  have h2: "[france_trimmed, france_trimmed] \<noteq> []" by simp
  have c: "env_configure demo_env ''key'' = None"
    by (simp add: demo_env_def demo_configure_def)
  have t1: "translated_or_english demo_env france_trimmed 1 = mcq_json france_french"
    by code_simp
  have t2: "translated_or_english demo_env france_trimmed 2 = mcq_json france_trimmed"
    by code_simp
  have v: "translate_mcqs_to_language demo_env (map mcq_json [france_trimmed, france_trimmed])
          ''French'' ''key'' 1 = ([mcq_json france_french, mcq_json france_trimmed], 3)"
    by code_simp
  obtain result calls' where
    r: "translate_mcqs_to_language demo_env (map mcq_json [france_trimmed, france_trimmed])
          ''French'' ''key'' 1 = (result, calls')"
    by (cases "translate_mcqs_to_language demo_env (map mcq_json [france_trimmed, france_trimmed])
          ''French'' ''key'' 1")
  from translate_per_item [OF h1 h2, of demo_env "''key''" 1] r c
  have len: "length result = 2"
    and items: "\<forall>i < 2. result ! i = translated_or_english demo_env ([france_trimmed, france_trimmed] ! i) (1 + i)"
    by simp_all
  have "result ! 0 = mcq_json france_french"
    using items [rule_format, of 0] t1 by simp
  moreover have "result ! 1 = mcq_json france_trimmed"
    using items [rule_format, of 1] t2 by (simp add: numeral_2_eq_2)
  ultimately have "result = [mcq_json france_french, mcq_json france_trimmed]"
    using len by (simp add: list_eq_iff_nth_eq less_Suc_eq numeral_2_eq_2)
  with r v h1 h2 c t1 t2 show ?thesis by simp
qed

section \<open>Properties of the orchestrator\<close>

lemma slice_to_nonempty: "xs \<noteq> [] \<Longrightarrow> 0 < n \<Longrightarrow> slice_to n xs \<noteq> []"
  by (cases xs) (auto simp: slice_to_def nat_eq_iff2 dest: take_eq_Nil [THEN iffD1])

lemma after_english_nonempty:
  assumes "after_english env english_mcqs language max_questions api_key calls = (Inr mcqs, calls')"
    and "english_mcqs \<noteq> []" and "0 < max_questions"
  shows "mcqs \<noteq> []"
proof -
  obtain translated c where
    t: "translate_mcqs_to_language env english_mcqs language api_key calls = (translated, c)"
    by (cases "translate_mcqs_to_language env english_mcqs language api_key calls")
  from assms(1) have "mcqs = slice_to max_questions english_mcqs
      \<or> (mcqs = slice_to max_questions translated \<and> translated \<noteq> [])"
    unfolding after_english_def t
    by (auto split: option.splits if_splits)
  with assms(2,3) show ?thesis
    using slice_to_nonempty by metis
qed

lemma fallback_empty:
  assumes "0 < max_questions"
  shows "generate_fallback_mcqs text max_questions = [] \<longleftrightarrow> sentences_of text = []"
  using assms by (auto simp: generate_fallback_mcqs_take take_eq_Nil)

text \<open>
  C3, as amended.  \<open>make_mcqs\<close> never raises, for any text, language and count.
  Whenever the English generator returns (it is called only for a trimmed text of
  at least 50 characters and a key that is not empty), \<open>make_mcqs\<close> returns a list:
  the empty list when the trimmed text has fewer than 50 characters, and, for a
  count from 5 to 20, the empty list only when the trimmed text has fewer than 50
  characters or the prepared text has no sentence longer than 20 characters, which
  is when the fallback generator has nothing to build a question from.
\<close>

theorem make_mcqs_returns_list:
  "(\<forall>e c. make_mcqs env text language max_questions calls \<noteq> Some (Inl e, c))
   \<and> ((50 \<le> length (strip text) \<longrightarrow>
         (\<forall>api_key. env_api_key env = Some api_key \<longrightarrow> api_key \<noteq> [] \<longrightarrow>
            generate_english_mcqs env (prepare_text text) max_questions api_key calls \<noteq> None))
        \<longrightarrow> (\<exists>mcqs calls'.
               make_mcqs env text language max_questions calls = Some (Inr mcqs, calls')
               \<and> (length (strip text) < 50 \<longrightarrow> mcqs = [])
               \<and> (mcqs = [] \<and> 5 \<le> max_questions \<and> max_questions \<le> 20 \<longrightarrow>
                    length (strip text) < 50 \<or> sentences_of (prepare_text text) = [])))"
proof (intro conjI allI impI)
  fix e c
  show "make_mcqs env text language max_questions calls \<noteq> Some (Inl e, c)"
    by (auto simp: make_mcqs_def Let_def split: option.splits sum.splits prod.splits if_splits)
next
  assume returns: "50 \<le> length (strip text) \<longrightarrow>
         (\<forall>api_key. env_api_key env = Some api_key \<longrightarrow> api_key \<noteq> [] \<longrightarrow>
            generate_english_mcqs env (prepare_text text) max_questions api_key calls \<noteq> None)"
  let ?text = "prepare_text text"
  let ?fallback = "map mcq_json (generate_fallback_mcqs ?text max_questions)"
  let ?goal = "\<exists>mcqs calls'.
               make_mcqs env text language max_questions calls = Some (Inr mcqs, calls')
               \<and> (length (strip text) < 50 \<longrightarrow> mcqs = [])
               \<and> (mcqs = [] \<and> 5 \<le> max_questions \<and> max_questions \<le> 20 \<longrightarrow>
                    length (strip text) < 50 \<or> sentences_of (prepare_text text) = [])"
  have fb: "\<And>c. make_mcqs env text language max_questions calls = Some (Inr ?fallback, c)
      \<Longrightarrow> \<not> length (strip text) < 50 \<Longrightarrow> ?goal"
    using fallback_empty [of max_questions ?text] by auto
  show ?goal
  proof (cases "length (strip text) < 50")
    case True
    then show ?thesis by (simp add: make_mcqs_def)
  next
    case long: False
    show ?thesis
    proof (cases "env_api_key env")
      case None
      with long have "make_mcqs env text language max_questions calls = Some (Inr ?fallback, calls)"
        by (simp add: make_mcqs_def Let_def)
      then show ?thesis using long by (rule fb)
    next
      case (Some api_key)
      show ?thesis
      proof (cases "api_key = []")
        case True
        with long Some
        have "make_mcqs env text language max_questions calls = Some (Inr ?fallback, calls)"
          by (simp add: make_mcqs_def Let_def)
        then show ?thesis using long by (rule fb)
      next
        case key: False
        with returns long Some obtain english c1 where
          en: "generate_english_mcqs env ?text max_questions api_key calls = Some (english, c1)"
          by fastforce
        show ?thesis
        proof (cases "english = []")
          case True
          with long Some key en
          have "make_mcqs env text language max_questions calls = Some (Inr ?fallback, c1)"
            by (simp add: make_mcqs_def Let_def)
          then show ?thesis using long by (rule fb)
        next
          case nonempty: False
          obtain r c2 where
            ae: "after_english env english language max_questions api_key c1 = (r, c2)"
            by (cases "after_english env english language max_questions api_key c1")
          show ?thesis
          proof (cases r)
            case (Inl e)
            with long Some key en nonempty ae
            have "make_mcqs env text language max_questions calls = Some (Inr ?fallback, c2)"
              by (simp add: make_mcqs_def Let_def)
            then show ?thesis using long by (rule fb)
          next
            case (Inr mcqs)
            with long Some key en nonempty ae
            have m: "make_mcqs env text language max_questions calls = Some (Inr mcqs, c2)"
              by (simp add: make_mcqs_def Let_def)
            have "0 < max_questions \<Longrightarrow> mcqs \<noteq> []"
              using after_english_nonempty [OF ae [unfolded Inr] nonempty] .
            with m long show ?thesis by auto
          qed
        qed
      qed
    qed
  qed
qed

theorem make_mcqs_returns_list_witness:
  "50 \<le> length (strip two_sentences)
   \<and> env_api_key demo_env = Some ''key''
   \<and> generate_english_mcqs demo_env (prepare_text two_sentences) 5 ''key'' 0 \<noteq> None
   \<and> (\<exists>mcqs calls'. make_mcqs demo_env two_sentences ''French'' 5 0 = Some (Inr mcqs, calls')
         \<and> mcqs \<noteq> [])"
proof -
  have h0: "50 \<le> length (strip two_sentences)" by code_simp
  have k: "env_api_key demo_env = Some ''key''" by (simp add: demo_env_def)
  have h: "generate_english_mcqs demo_env (prepare_text two_sentences) 5 ''key'' 0 \<noteq> None"
    by code_simp
  have s: "sentences_of (prepare_text two_sentences) \<noteq> []" by code_simp
  from make_mcqs_returns_list [of demo_env two_sentences "''French''" 5 0] h k
  obtain mcqs calls' where
    "make_mcqs demo_env two_sentences ''French'' 5 0 = Some (Inr mcqs, calls')"
    "mcqs = [] \<and> (5::int) \<le> 5 \<and> (5::int) \<le> 20 \<longrightarrow>
       length (strip two_sentences) < 50 \<or> sentences_of (prepare_text two_sentences) = []"
    by auto
  with h0 s have "\<exists>mcqs calls'. make_mcqs demo_env two_sentences ''French'' 5 0 = Some (Inr mcqs, calls')
         \<and> mcqs \<noteq> []"
    by auto
  with h0 k h show ?thesis by simp
qed

text \<open>
  The empty list is not reserved for short texts: without a key, the 61 characters
  of \<open>choppy_text\<close> go to the fallback generator, which finds no sentence longer
  than 20 characters.
\<close>

theorem make_mcqs_counterexample:
  "make_mcqs offline_env choppy_text ''English'' 5 0 = Some (Inr [], 0)
   \<and> \<not> length (strip choppy_text) < 50"
  by code_simp

section \<open>Properties of the short-script generator\<close>

lemma shorts_loop_strict:
  "shorts_loop env t True (Suc 0) c =
     (case env_generate env c of
        Inl e \<Rightarrow> (Inl e, Suc c, [True])
      | Inr raw \<Rightarrow>
          if sanitize_plain_text_script raw \<noteq> [] \<and> script_accepted t (sanitize_plain_text_script raw)
          then (Inr (Some (sanitize_plain_text_script raw)), Suc c, [True])
          else (Inr None, Suc c, [True]))"
  by (subst shorts_loop.simps) (simp add: Let_def split: sum.splits)

lemma shorts_loop_first:
  "shorts_loop env t False 0 c =
     (case env_generate env c of
        Inl e \<Rightarrow> (Inl e, Suc c, [False])
      | Inr raw \<Rightarrow>
          if sanitize_plain_text_script raw \<noteq> [] \<and> script_accepted t (sanitize_plain_text_script raw)
          then (Inr (Some (sanitize_plain_text_script raw)), Suc c, [False])
          else (case shorts_loop env t True (Suc 0) (Suc c) of
                  (r, c', issued) \<Rightarrow> (r, c', False # issued)))"
  by (subst shorts_loop.simps) (simp add: Let_def split: sum.splits)

lemma shorts_loop_cases:
  assumes "shorts_loop env t False 0 c = (r, c', issued)"
  shows "c' = c + length issued
    \<and> (issued = [False]
        \<or> issued = [False, True]
           \<and> (\<exists>raw. env_generate env c = Inr raw
                  \<and> \<not> (sanitize_plain_text_script raw \<noteq> []
                        \<and> script_accepted t (sanitize_plain_text_script raw))))
    \<and> (\<forall>script. r = Inr (Some script) \<longrightarrow>
          script \<noteq> [] \<and> script_accepted t script \<and> (\<exists>raw. script = sanitize_plain_text_script raw))"
  using assms unfolding shorts_loop_first shorts_loop_strict
  by (auto split: sum.splits if_splits)

text \<open>
  A string contains only strings made of its own characters; the script of the
  example consists of the letters of \<open>cat\<close> and spaces, so it contains no banned
  phrase.
\<close>

lemma contains_set: "contains sub s \<Longrightarrow> set sub \<subseteq> set s"
proof (induction s)
  case Nil
  then show ?case by simp
next
  case (Cons c cs)
  show ?case
  proof (cases "startswith (c # cs) sub")
    case True
    then have "sub = take (length sub) (c # cs)" by (simp add: startswith_def)
    then have "set sub \<subseteq> set (c # cs)" by (metis set_take_subset)
    then show ?thesis .
  next
    case False
    with Cons show ?thesis by auto
  qed
qed

lemma set_strip: "set (strip s) \<subseteq> set s"
proof -
  have "set (dropWhile is_space (rev (dropWhile is_space s))) \<subseteq> set (rev (dropWhile is_space s))"
    by (auto dest: set_dropWhileD)
  also have "\<dots> \<subseteq> set s"
    by (auto dest: set_dropWhileD)
  finally show ?thesis by (simp add: strip_def)
qed

lemma set_lower: "set (lower s) = lower_char ` set s"
  by (simp add: lower_def)

lemma set_concat_replicate: "set (concat (replicate n w)) \<subseteq> set w"
  by (induction n) auto

lemma cat_script_not_banned:
  "\<not> list_ex (\<lambda>phrase. contains phrase (lower (strip cat_script))) banned_phrases"
proof -
  have "set (strip cat_script) \<subseteq> set ''cat ''"
    unfolding cat_script_def using set_strip set_concat_replicate by (rule subset_trans)
  then have sub: "set (lower (strip cat_script)) \<subseteq> lower_char ` set ''cat ''"
    unfolding set_lower by (rule image_mono)
  have all: "list_all (\<lambda>phrase. \<not> set phrase \<subseteq> lower_char ` set ''cat '') banned_phrases"
    by code_simp
  show ?thesis
  proof
    assume "list_ex (\<lambda>phrase. contains phrase (lower (strip cat_script))) banned_phrases"
    then obtain phrase where p: "phrase \<in> set banned_phrases"
      and c: "contains phrase (lower (strip cat_script))"
      unfolding list_ex_iff by blast
    from c have "set phrase \<subseteq> set (lower (strip cat_script))" by (rule contains_set)
    then have "set phrase \<subseteq> lower_char ` set ''cat ''" using sub by (rule subset_trans)
    moreover from all p have "\<not> set phrase \<subseteq> lower_char ` set ''cat ''"
      unfolding list_all_iff by blast
    ultimately show False by contradiction
  qed
qed

text \<open>
  C10.  For a topic that is not empty once trimmed, the generator issues at most
  two provider calls: none, or one that is not strict, or a call that is not strict
  whose script was rejected followed by a strict one.  It never raises.  It returns
  either the fallback message for the trimmed topic or a sanitized script that
  contains the lowered topic in its lowered form, has from 120 to 180 words and
  contains no banned phrase.
\<close>

theorem short_script_bounded:
  assumes "strip topic \<noteq> []"
  shows "case generate_short_form_script env topic calls of
           (result, calls', issued) \<Rightarrow>
             length issued \<le> 2 \<and> calls' = calls + length issued
             \<and> (issued = [] \<or> issued = [False]
                 \<or> issued = [False, True]
                    \<and> (\<exists>raw. env_generate env calls = Inr raw
                           \<and> \<not> (sanitize_plain_text_script raw \<noteq> []
                                 \<and> script_accepted (strip topic) (sanitize_plain_text_script raw))))
             \<and> (\<exists>script. result = Inr script
                   \<and> (script = build_fallback_short_script (strip topic)
                       \<or> (\<exists>raw. script = sanitize_plain_text_script raw)
                          \<and> contains (lower (strip topic)) (lower script)
                          \<and> 120 \<le> length (py_split script) \<and> length (py_split script) \<le> 180
                          \<and> \<not> list_ex (\<lambda>phrase. contains phrase (lower script)) banned_phrases))"
proof -
  obtain r c' issued where l: "shorts_loop env (strip topic) False 0 calls = (r, c', issued)"
    by (cases "shorts_loop env (strip topic) False 0 calls")
  note facts = shorts_loop_cases [OF l]
  show ?thesis
  proof (cases "\<exists>api_key. env_api_key env = Some api_key \<and> api_key \<noteq> []
                  \<and> env_configure env api_key = None")
    case False
    with assms show ?thesis
      by (auto simp: generate_short_form_script_def Let_def split: option.splits)
  next
    case True
    then obtain api_key where k: "env_api_key env = Some api_key" "api_key \<noteq> []"
      "env_configure env api_key = None" by blast
    show ?thesis
    proof (cases r)
      case (Inl e)
      with assms k l facts show ?thesis
        by (auto simp: generate_short_form_script_def Let_def)
    next
      case (Inr s)
      show ?thesis
      proof (cases s)
        case None
        with Inr assms k l facts show ?thesis
          by (auto simp: generate_short_form_script_def Let_def)
      next
        case (Some script)
        with Inr facts have "script_accepted (strip topic) script"
          "\<exists>raw. script = sanitize_plain_text_script raw" by auto
        with Some Inr assms k l facts show ?thesis
          by (auto simp: generate_short_form_script_def Let_def script_accepted_def)
      qed
    qed
  qed
qed

theorem short_script_bounded_witness:
  "strip '' cat '' \<noteq> []
   \<and> generate_short_form_script shorts_env '' cat '' 0 = (Inr (strip cat_script), 2, [False, True])
   \<and> contains (lower (strip '' cat '')) (lower (strip cat_script))
   \<and> 120 \<le> length (py_split (strip cat_script))
   \<and> length (py_split (strip cat_script)) \<le> 180"
proof -
  have t: "strip '' cat '' = ''cat''" by code_simp
  then have h: "strip '' cat '' \<noteq> []" by simp
  have refusal: "sanitize_plain_text_script (Some ''I cannot help with that.'') = ''I cannot help with that.''"
    by code_simp
  have rejected: "\<not> script_accepted ''cat'' ''I cannot help with that.''"
    by code_simp
  have script: "sanitize_plain_text_script (Some cat_script) = strip cat_script"
    by code_simp
  have nonempty: "strip cat_script \<noteq> []"
    by code_simp
  have topic: "contains (lower ''cat'') (lower (strip cat_script))"
    by code_simp
  have words: "length (py_split (strip cat_script)) = 120"
    by code_simp
  note banned = cat_script_not_banned
  have ok: "script_accepted ''cat'' (strip cat_script)"
    using topic words banned by (simp add: script_accepted_def Let_def)
  have env: "env_api_key shorts_env = Some ''key''" "env_configure shorts_env ''key'' = None"
    "env_generate shorts_env 0 = Inr (Some ''I cannot help with that.'')"
    "env_generate shorts_env (Suc 0) = Inr (Some cat_script)"
    by (simp_all add: shorts_env_def demo_env_def demo_configure_def shorts_generate_def)
  have v: "generate_short_form_script shorts_env '' cat '' 0
      = (Inr (strip cat_script), 2, [False, True])"
    by (simp add: generate_short_form_script_def Let_def t env shorts_loop_first
          shorts_loop_strict refusal rejected script nonempty ok)
  have nf: "strip cat_script \<noteq> build_fallback_short_script ''cat''"
  proof
    assume "strip cat_script = build_fallback_short_script ''cat''"
    then have "length (py_split (strip cat_script)) = length (py_split (build_fallback_short_script ''cat''))"
      by simp
    moreover have "length (py_split (build_fallback_short_script ''cat'')) = 18"
      by code_simp
    ultimately show False using words by simp
  qed
  from short_script_bounded [OF h, where env = shorts_env and calls = 0] v nf
  have "contains (lower (strip '' cat '')) (lower (strip cat_script))
      \<and> 120 \<le> length (py_split (strip cat_script))
      \<and> length (py_split (strip cat_script)) \<le> 180"
    by (auto simp: t)
  with h v show ?thesis by simp
qed

section \<open>Further properties of the validator\<close>

text \<open>
  The branch of \<open>resolve_answer\<close> that answers a first option that is not a str
  with a \<open>TypeError\<close> is never taken: once \<open>len(options)\<close> has succeeded, no
  \<open>TypeError\<close> comes out of the resolution.
\<close>

lemma find_same_case_all_str:
  "find_same_case answer_lower elems = Inr None \<Longrightarrow> \<forall>x \<in> set elems. \<exists>s. x = JStr s"
  by (induction elems) (auto split: json.splits if_splits)

lemma find_same_case_error:
  "find_same_case answer_lower elems = Inl e \<Longrightarrow> e = AttributeError"
  by (induction elems) (auto split: json.splits if_splits)

lemma resolve_answer_no_type_error:
  assumes "py_len opts = Inr n"
  shows "resolve_answer answer opts \<noteq> Inl TypeError"
proof
  assume r: "resolve_answer answer opts = Inl TypeError"
  from assms obtain elems where it: "py_iter opts = Inr elems"
    by (cases opts) (auto simp: py_len_def py_iter_def)
  from assms obtain b where pin: "py_in answer opts = Inr b"
    by (cases opts) (auto simp: py_len_def py_in_def)
  show False
  proof (cases "find_same_case (lower answer) elems")
    case (Inl e)
    with find_same_case_error have "e = AttributeError" by blast
    with r Inl it pin show False
      by (cases b) (auto simp: resolve_answer_def)
  next
    case (Inr found)
    show False
    proof (cases found)
      case (Some s)
      with r Inr it pin show False by (cases b) (auto simp: resolve_answer_def)
    next
      case None
      with Inr have strs: "\<forall>x \<in> set elems. \<exists>s. x = JStr s"
        using find_same_case_all_str by blast
      have "py_first opts \<noteq> Inl TypeError \<and> (\<forall>v. py_first opts = Inr v \<longrightarrow> (\<exists>s. v = JStr s))"
      proof (cases opts)
        case (JList l)
        with it strs show ?thesis by (cases l) (auto simp: py_first_def py_iter_def)
      next
        case (JStr s)
        then show ?thesis by (cases s) (auto simp: py_first_def)
      qed (use assms in \<open>auto simp: py_len_def py_first_def\<close>)
      with r Inr None it pin show False
        by (cases b; cases "py_first opts") (auto simp: resolve_answer_def split: json.splits)
    qed
  qed
qed

text \<open>
  An accepted record has exactly four options, and neither its question nor its
  answer is empty.
\<close>

theorem accepted_has_four_options:
  assumes "validate_mcq render raw = Some (Inr (Some m))"
  shows "length (mcq_options m) = 4 \<and> mcq_question m \<noteq> [] \<and> mcq_answer m \<noteq> []"
proof -
  from assms obtain d where raw: "raw = JDict d"
    by (cases raw) (auto simp: validate_mcq_def)
  from assms raw obtain q a dd opts where
    v: "validate_options render q a dd opts = Some (Inr (Some m))" and q: "q \<noteq> []"
    by (auto simp: validate_mcq_def Let_def split: if_splits sum.splits)
  from v obtain cleaned seen where st: "sound_state cleaned seen" "4 \<le> length cleaned"
      and m: "mcq_options m = take 4 cleaned" "mcq_question m = q" "mcq_answer m \<in> set cleaned"
    using validate_options_accepts by blast
  from st(1) m(3) have "mcq_answer m \<noteq> []"
    by (auto simp: sound_state_def list_all_iff good_option_def)
  with st(2) m q show ?thesis by simp
qed

theorem accepted_has_four_options_witness:
  "validate_mcq render_none padded_mcq = Some (Inr (Some padded_result))
   \<and> length (mcq_options padded_result) = 4
   \<and> mcq_question padded_result \<noteq> [] \<and> mcq_answer padded_result \<noteq> []"
proof -
  have h: "validate_mcq render_none padded_mcq = Some (Inr (Some padded_result))"
    by code_simp
  show ?thesis using h accepted_has_four_options [OF h] by simp
qed

text \<open>
  A dict with fewer than four raw options is rejected, never padded.
\<close>

theorem few_options_rejected:
  assumes "length os < 4"
  shows "validate_mcq render (raw_mcq q a os d) = Some (Inr None)"
  using assms
  by (simp add: validate_mcq_raw validate_options_def py_len_def)

theorem few_options_rejected_witness:
  "length [''Paris'', ''Lyon''] < 4 \<and> validate_mcq render_none two_options_raw = Some (Inr None)"
proof -
  have h: "length [''Paris'', ''Lyon''] < 4" by simp
  show ?thesis
    using h few_options_rejected [OF h, of render_none] by (simp add: two_options_raw_def)
qed

end
